theory Spec2Isabelle
  imports Main
begin

section \<open>Values, requests and responses\<close>

text \<open>
  The repository is one Python file, \<^verbatim>\<open>src/main.py\<close>: pydantic input classes
  (lines 32-301) and one coroutine per tool (lines 305-621). Every coroutine builds a URL
  and a dict of query parameters from its validated \<^verbatim>\<open>params\<close> object, calls
  \<^verbatim>\<open>http_client.get(url, params=..., headers=HEADERS)\<close> once, then
  \<^verbatim>\<open>res.raise_for_status()\<close> and \<^verbatim>\<open>return res.json()\<close>.

  Python values that occur as field values and as query parameter values. Floats and
  nested containers do not occur in any input class and are left out.
\<close>

datatype pyval = PNone | PBool bool | PInt int | PStr string

text \<open>A decoded JSON document, as \<^verbatim>\<open>res.json()\<close> returns it (numbers kept integral).\<close>

datatype json = JNull | JBool bool | JNum int | JStr string
  | JArr "json list" | JObj "(string \<times> json) list"

datatype http_verb = GET | HEAD | POST | PUT | PATCH | DELETE | OPTIONS

text \<open>
  What the code hands to the HTTP client: the verb, the URL string, the \<^verbatim>\<open>params=\<close>
  argument (\<open>None\<close> when the call does not pass it), the \<^verbatim>\<open>headers=\<close> argument
  and the request body (\<open>None\<close> when no body is passed). A dict is an association list in
  insertion order. How the client library encodes these into bytes on the wire is outside
  the repository and outside this model.
\<close>

record request =
  req_verb :: http_verb
  req_url :: string
  req_params :: "(string \<times> pyval) list option"
  req_headers :: "(string \<times> string) list"
  req_content :: "string option"

text \<open>
  A response as the code observes it: \<^verbatim>\<open>status_code\<close>, the raw body, and what
  \<^verbatim>\<open>json()\<close> decodes the body to (\<open>None\<close> when the body is not valid JSON).
\<close>

record response =
  status_code :: int
  res_text :: string
  res_json :: "json option"

datatype error_kind = Missing | WrongType

text \<open>
  The exceptions a tool call can end in. \<open>HTTPStatusError\<close> carries the response, as
  httpx's exception does (attribute \<^verbatim>\<open>response\<close>); the specification calls it
  UpstreamError. \<open>JSONDecodeError\<close> is the specification's ParseError.
\<close>

datatype error =
    AttributeError string
  | RequestError
  | HTTPStatusError response
  | JSONDecodeError
  | ValidationError "(string \<times> error_kind) list"
  | UnknownTool string

type_synonym params = "(string \<times> pyval) list"
type_synonym payload = "(string \<times> pyval) list"
type_synonym client = "request \<Rightarrow> response option"
type_synonym outcome = "request list \<times> (error + json)"

text \<open>
  A \<open>client\<close> is the stubbed transport: it answers a request with a response, or with
  \<open>None\<close> when the transport itself raises. An \<open>outcome\<close> is the list of requests a
  call handed to the client, with the value returned or the exception raised.
\<close>

definition stub :: "response \<Rightarrow> client" where
  "stub res req = Some res"

subsection \<open>Python string operations\<close>

definition digit_char :: "nat \<Rightarrow> char" where
  "digit_char n = char_of (48 + n)"

function str_nat :: "nat \<Rightarrow> string" where
  "str_nat n = (if n < 10 then [digit_char n] else str_nat (n div 10) @ [digit_char (n mod 10)])"
  by pat_completeness auto
termination
  by (relation "measure id") auto

declare str_nat.simps [simp del]

definition str_int :: "int \<Rightarrow> string" where
  "str_int i = (if i < 0 then CHR ''-'' # str_nat (nat (- i)) else str_nat (nat i))"

text \<open>What an f-string writes for \<^verbatim>\<open>{value}\<close>: Python's \<^verbatim>\<open>str(value)\<close>.\<close>

fun py_str :: "pyval \<Rightarrow> string" where
  "py_str PNone = ''None''"
| "py_str (PBool b) = (if b then ''True'' else ''False'')"
| "py_str (PInt i) = str_int i"
| "py_str (PStr s) = s"

text \<open>Truth value of an object in a conditional expression.\<close>

fun truthy :: "pyval \<Rightarrow> bool" where
  "truthy PNone = False"
| "truthy (PBool b) = b"
| "truthy (PInt i) = (i \<noteq> 0)"
| "truthy (PStr s) = (s \<noteq> [])"

text \<open>
  \<^verbatim>\<open>str.upper()\<close> on the ASCII letters; other characters are kept. (Python maps
  non-ASCII letters too; none of them has the upper case \<^verbatim>\<open>P\<close>, the only string the
  code compares an upper-cased value with.)
\<close>

definition upper_char :: "char \<Rightarrow> char" where
  "upper_char c =
     (let n = (of_char c :: nat) in if 97 \<le> n \<and> n \<le> 122 then char_of (n - 32) else c)"

definition str_upper :: "string \<Rightarrow> string" where
  "str_upper s = map upper_char s"

subsection \<open>The HTTP calls of a tool body\<close>

definition MLB_BASE :: string where
  "MLB_BASE = ''https://statsapi.mlb.com/api/v1''"

definition HEADERS :: "(string \<times> string) list" where
  "HEADERS = [(''Accept'', ''application/json''), (''Content-Type'', ''application/json'')]"

text \<open>\<^verbatim>\<open>res.raise_for_status()\<close>: httpx raises unless \<open>200 \<le> status_code \<le> 299\<close>.\<close>

definition raise_for_status :: "response \<Rightarrow> error + response" where
  "raise_for_status res =
     (if 200 \<le> status_code res \<and> status_code res \<le> 299 then Inr res
      else Inl (HTTPStatusError res))"

text \<open>\<^verbatim>\<open>res.json()\<close>: the decoded body, or a decode error.\<close>

definition json_of :: "response \<Rightarrow> error + json" where
  "json_of res = (case res_json res of None \<Rightarrow> Inl JSONDecodeError | Some j \<Rightarrow> Inr j)"

text \<open>
  The three lines every tool body ends with:
  \<^verbatim>\<open>res = await http_client.get(url, params=query_params, headers=HEADERS)\<close>,
  \<^verbatim>\<open>res.raise_for_status()\<close>, \<^verbatim>\<open>return res.json()\<close>. The URL, the query
  parameters and the headers stay arguments, as each tool passes its own.
\<close>

definition http_get ::
  "client \<Rightarrow> string \<Rightarrow> (string \<times> pyval) list option \<Rightarrow> (string \<times> string) list \<Rightarrow> outcome" where
  "http_get http_client u query_params hs =
     (let req = \<lparr>req_verb = GET, req_url = u, req_params = query_params,
                 req_headers = hs, req_content = None\<rparr>
      in case http_client req of
           None \<Rightarrow> ([req], Inl RequestError)
         | Some res \<Rightarrow>
             ([req], case raise_for_status res of Inl e \<Rightarrow> Inl e | Inr r \<Rightarrow> json_of r))"

subsection \<open>Attribute access, \<^verbatim>\<open>model_dump\<close> and dict assignment\<close>

text \<open>
  A validated \<^verbatim>\<open>params\<close> object is the association list of its fields, in declaration
  order. \<^verbatim>\<open>params.name\<close> raises AttributeError when the object has no such attribute;
  a raise before the HTTP call ends the tool body with no request made.
\<close>

definition attr :: "params \<Rightarrow> string \<Rightarrow> (pyval \<Rightarrow> outcome) \<Rightarrow> outcome" where
  "attr obj name k =
     (case map_of obj name of None \<Rightarrow> ([], Inl (AttributeError name)) | Some v \<Rightarrow> k v)"

text \<open>\<^verbatim>\<open>value.upper()\<close>: defined on strings only.\<close>

definition upper :: "pyval \<Rightarrow> (pyval \<Rightarrow> outcome) \<Rightarrow> outcome" where
  "upper v k =
     (case v of PStr s \<Rightarrow> k (PStr (str_upper s)) | _ \<Rightarrow> ([], Inl (AttributeError ''upper'')))"

text \<open>
  \<^verbatim>\<open>params.model_dump(exclude_none=b, exclude={...})\<close>: the fields in declaration
  order, without the excluded names and, when \<open>b\<close>, without the fields whose value is None.
\<close>

definition model_dump :: "bool \<Rightarrow> string list \<Rightarrow> params \<Rightarrow> (string \<times> pyval) list" where
  "model_dump exclude_none exclude obj =
     filter (\<lambda>(k, v). k \<notin> set exclude \<and> (if exclude_none then v \<noteq> PNone else True)) obj"

text \<open>\<^verbatim>\<open>d[key] = value\<close>: replaces the value of an existing key in place, else appends.\<close>

fun setitem :: "(string \<times> pyval) list \<Rightarrow> string \<Rightarrow> pyval \<Rightarrow> (string \<times> pyval) list" where
  "setitem [] key v = [(key, v)]"
| "setitem ((k, w) # d) key v = (if k = key then (k, v) # d else (k, w) # setitem d key v)"

section \<open>Input classes\<close>

text \<open>
  A pydantic class is the list of its fields in declaration order. A field has a name, a
  type (\<^verbatim>\<open>int\<close>, \<^verbatim>\<open>str\<close> or \<^verbatim>\<open>bool\<close>), is nullable when annotated
  \<^verbatim>\<open>Optional[...]\<close>, and has a default unless it is required (no default, or
  \<^verbatim>\<open>Field(...)\<close> with the ellipsis).
\<close>

datatype ftype = TInt | TStr | TBool

datatype field = Field (fname: string) (nullable: bool) (ftype: ftype) (default: "pyval option")

type_synonym schema = "field list"

text \<open>\<^verbatim>\<open>name: t\<close> and \<^verbatim>\<open>name: t = Field(..., description=...)\<close>.\<close>

definition req :: "string \<Rightarrow> ftype \<Rightarrow> field" where
  "req name t = Field name False t None"

text \<open>\<^verbatim>\<open>name: Optional[t] = Field(d, description=...)\<close>.\<close>

definition opt :: "string \<Rightarrow> ftype \<Rightarrow> pyval \<Rightarrow> field" where
  "opt name t d = Field name True t (Some d)"

definition TeamsForYearInput :: schema where
  "TeamsForYearInput = [req ''year'' TInt]"

definition TeamRosterInput :: schema where
  "TeamRosterInput = [req ''team_id'' TStr, req ''year'' TInt]"

definition PlayerStatsInput :: schema where
  "PlayerStatsInput = [req ''player_id'' TStr, req ''year'' TInt, req ''position'' TStr]"

definition ScheduleByDateInput :: schema where
  "ScheduleByDateInput = [req ''date'' TStr]"

definition BoxscoreInput :: schema where
  "BoxscoreInput =
     [req ''game_pk'' TInt, req ''year'' TInt, req ''team_id'' TStr, req ''game_date'' TStr]"

definition StandingsInput :: schema where
  "StandingsInput = [req ''season'' TInt, req ''league_id'' TInt]"

definition PlayerBioInput :: schema where
  "PlayerBioInput = [req ''player_id'' TStr]"

definition TeamScheduleInput :: schema where
  "TeamScheduleInput = [req ''team_id'' TStr, req ''season'' TInt]"

definition GameContentInput :: schema where
  "GameContentInput = [req ''game_pk'' TInt]"

definition LeagueLeadersInput :: schema where
  "LeagueLeadersInput = [req ''category'' TStr, req ''season'' TInt]"

definition AwardsInput :: schema where
  "AwardsInput = [req ''season'' TInt]"

definition VenuesInput :: schema where
  "VenuesInput = [req ''season'' TInt]"

definition AttendanceInput :: schema where
  "AttendanceInput =
     [opt ''season'' TInt PNone, opt ''teamId'' TInt PNone, opt ''date'' TStr PNone]"

definition AwardWinnersInput :: schema where
  "AwardWinnersInput = [req ''award_id'' TStr, req ''season'' TInt]"

definition DivisionsInput :: schema where
  "DivisionsInput = [opt ''season'' TInt PNone]"

definition DraftInput :: schema where
  "DraftInput =
     [opt ''year'' TInt PNone, opt ''round'' TInt PNone, opt ''name'' TStr PNone,
      opt ''school'' TStr PNone, opt ''state'' TStr PNone, opt ''country'' TStr PNone,
      opt ''position'' TStr PNone, opt ''teamId'' TInt PNone, opt ''playerId'' TInt PNone,
      opt ''bisPlayerId'' TInt PNone, opt ''latest'' TBool (PBool False),
      opt ''prospects'' TBool (PBool False)]"

definition GameChangesInput :: schema where
  "GameChangesInput =
     [req ''updatedSince'' TStr, opt ''sportId'' TInt (PInt 1), opt ''gameType'' TStr PNone,
      opt ''season'' TInt PNone, opt ''fields'' TStr PNone]"

definition GameContextMetricsInput :: schema where
  "GameContextMetricsInput = [req ''gamePk'' TInt, opt ''timecode'' TStr PNone]"

definition GameLinescoreInput :: schema where
  "GameLinescoreInput = [req ''gamePk'' TStr, opt ''timecode'' TStr PNone]"

definition GameUniformsInput :: schema where
  "GameUniformsInput = [req ''gamePks'' TStr, opt ''fields'' TStr PNone]"

definition GamePaceInput :: schema where
  "GamePaceInput =
     [req ''season'' TStr, opt ''teamIds'' TStr PNone, opt ''leagueIds'' TStr PNone,
      opt ''leagueListId'' TStr PNone, opt ''gameType'' TStr PNone,
      opt ''startDate'' TStr PNone, opt ''endDate'' TStr PNone, opt ''venueIds'' TStr PNone,
      opt ''orgType'' TStr PNone, opt ''includeChildren'' TBool PNone,
      opt ''fields'' TStr PNone]"

definition HighLowPlayerInput :: schema where
  "HighLowPlayerInput =
     [req ''sortStat'' TStr, req ''season'' TStr, opt ''statGroup'' TStr (PStr ''hitting''),
      opt ''gameType'' TStr PNone, opt ''leagueId'' TInt PNone,
      opt ''sportIds'' TStr (PStr ''1''), opt ''teamId'' TInt PNone,
      opt ''limit'' TInt (PInt 5)]"

text \<open>\<^verbatim>\<open>class HighLowTeamInput(HighLowPlayerInput): pass\<close>, and likewise below.\<close>

definition HighLowTeamInput :: schema where
  "HighLowTeamInput = HighLowPlayerInput"

definition AllStarBallotInput :: schema where
  "AllStarBallotInput = [req ''leagueId'' TStr, req ''season'' TStr]"

definition AllStarWriteInsInput :: schema where
  "AllStarWriteInsInput = AllStarBallotInput"

definition AllStarFinalVoteInput :: schema where
  "AllStarFinalVoteInput = AllStarBallotInput"

definition PeopleFreeAgentsInput :: schema where
  "PeopleFreeAgentsInput =
     [req ''leagueId'' TStr, opt ''order'' TStr PNone, opt ''hydrate'' TStr PNone,
      opt ''fields'' TStr PNone, req ''season'' TStr]"

definition JobsUmpiresInput :: schema where
  "JobsUmpiresInput =
     [opt ''sportId'' TStr (PStr ''1''), opt ''date'' TStr PNone, opt ''fields'' TStr PNone]"

definition JobsDatacastersInput :: schema where
  "JobsDatacastersInput = JobsUmpiresInput"

definition JobsOfficialScorersInput :: schema where
  "JobsOfficialScorersInput = [opt ''timecode'' TStr PNone, opt ''fields'' TStr PNone]"

definition ScheduleTiedGamesInput :: schema where
  "ScheduleTiedGamesInput =
     [req ''season'' TStr, opt ''gameTypes'' TStr PNone, opt ''hydrate'' TStr PNone,
      opt ''fields'' TStr PNone]"

definition SchedulePostseasonInput :: schema where
  "SchedulePostseasonInput =
     [opt ''gameTypes'' TStr PNone, opt ''seriesNumber'' TStr PNone, opt ''teamId'' TInt PNone,
      opt ''sportId'' TInt PNone, opt ''season'' TStr PNone, opt ''hydrate'' TStr PNone,
      opt ''fields'' TStr PNone]"

definition SeasonsInput :: schema where
  "SeasonsInput =
     [opt ''season'' TStr PNone, opt ''all'' TBool (PBool False), opt ''leagueId'' TInt PNone,
      opt ''divisionId'' TInt PNone, opt ''fields'' TStr PNone]"

definition SeasonByIdInput :: schema where
  "SeasonByIdInput = [req ''seasonId'' TStr, opt ''fields'' TStr PNone]"

definition MLBStatsInput :: schema where
  "MLBStatsInput =
     [req ''stats'' TStr, req ''group'' TStr, opt ''playerPool'' TStr PNone,
      opt ''position'' TStr PNone, opt ''teamId'' TInt PNone, opt ''leagueId'' TInt PNone,
      opt ''sportIds'' TStr (PStr ''1''), opt ''gameType'' TStr PNone,
      opt ''season'' TStr PNone, opt ''sortStat'' TStr PNone, opt ''order'' TStr PNone,
      opt ''limit'' TInt (PInt 50), opt ''offset'' TInt (PInt 0), opt ''hydrate'' TStr PNone,
      opt ''fields'' TStr PNone, opt ''personId'' TStr PNone, opt ''metrics'' TStr PNone,
      opt ''startDate'' TStr PNone, opt ''endDate'' TStr PNone]"

definition TeamHistoryInput :: schema where
  "TeamHistoryInput =
     [req ''teamIds'' TStr, opt ''startSeason'' TStr PNone, opt ''endSeason'' TStr PNone,
      opt ''fields'' TStr PNone]"

definition TeamStatsInput :: schema where
  "TeamStatsInput =
     [req ''season'' TStr, req ''group'' TStr, req ''stats'' TStr, opt ''gameType'' TStr PNone,
      opt ''order'' TStr PNone, opt ''sortStat'' TStr PNone, opt ''fields'' TStr PNone,
      opt ''startDate'' TStr PNone, opt ''endDate'' TStr PNone]"

definition TeamAffiliatesInput :: schema where
  "TeamAffiliatesInput =
     [req ''teamIds'' TStr, opt ''season'' TStr PNone, opt ''hydrate'' TStr PNone,
      opt ''fields'' TStr PNone]"

definition TeamAlumniInput :: schema where
  "TeamAlumniInput =
     [req ''teamId'' TStr, req ''season'' TStr, req ''group'' TStr,
      opt ''hydrate'' TStr PNone, opt ''fields'' TStr PNone]"

definition TeamCoachesInput :: schema where
  "TeamCoachesInput =
     [req ''teamId'' TStr, opt ''season'' TStr PNone, opt ''date'' TStr PNone,
      opt ''fields'' TStr PNone]"

definition TeamLeadersInput :: schema where
  "TeamLeadersInput =
     [req ''teamId'' TStr, req ''leaderCategories'' TStr, req ''season'' TStr,
      opt ''leaderGameTypes'' TStr PNone, opt ''hydrate'' TStr PNone,
      opt ''limit'' TInt PNone, opt ''fields'' TStr PNone]"

definition TeamStatsByIdInput :: schema where
  "TeamStatsByIdInput =
     [req ''teamId'' TStr, req ''season'' TStr, req ''group'' TStr, opt ''stats'' TStr PNone,
      opt ''gameType'' TStr PNone, opt ''sportIds'' TStr (PStr ''1''),
      opt ''sitCodes'' TStr PNone, opt ''fields'' TStr PNone]"

definition TeamUniformsInput :: schema where
  "TeamUniformsInput =
     [req ''teamIds'' TStr, opt ''season'' TStr PNone, opt ''fields'' TStr PNone]"

definition TransactionsInput :: schema where
  "TransactionsInput =
     [opt ''teamId'' TStr PNone, opt ''playerId'' TStr PNone, opt ''date'' TStr PNone,
      opt ''startDate'' TStr PNone, opt ''endDate'' TStr PNone, opt ''fields'' TStr PNone]"

section \<open>Tool bodies\<close>

text \<open>
  One definition per coroutine of \<^verbatim>\<open>src/main.py\<close>, lines 305-621, under its own
  name. Attribute reads stand in the order the body evaluates them.
\<close>

definition mlb_get_all_teams :: "client \<Rightarrow> params \<Rightarrow> outcome" where
  "mlb_get_all_teams http_client params =
     attr params ''year'' (\<lambda>year.
       let query_params = [(''sportId'', PInt 1), (''season'', year)]
       in http_get http_client (MLB_BASE @ ''/teams'') (Some query_params) HEADERS)"

definition mlb_get_team_roster :: "client \<Rightarrow> params \<Rightarrow> outcome" where
  "mlb_get_team_roster http_client params =
     attr params ''year'' (\<lambda>year.
       let query_params = [(''season'', year)]
       in attr params ''team_id'' (\<lambda>team_id.
            http_get http_client (MLB_BASE @ ''/teams/'' @ py_str team_id @ ''/roster'')
              (Some query_params) HEADERS))"

text \<open>
  Line 321: \<^verbatim>\<open>stat_group = "pitching" if params.position.upper() == "P" else "hitting"\<close>.
\<close>

definition mlb_get_player_stats :: "client \<Rightarrow> params \<Rightarrow> outcome" where
  "mlb_get_player_stats http_client params =
     attr params ''position'' (\<lambda>position.
       upper position (\<lambda>uppered.
         let stat_group = (if uppered = PStr ''P'' then ''pitching'' else ''hitting'')
         in attr params ''year'' (\<lambda>year.
              let query_params =
                    [(''stats'', PStr ''season''), (''group'', PStr stat_group), (''season'', year)]
              in attr params ''player_id'' (\<lambda>player_id.
                   http_get http_client (MLB_BASE @ ''/people/'' @ py_str player_id @ ''/stats'')
                     (Some query_params) HEADERS))))"

definition mlb_get_schedule_by_date :: "client \<Rightarrow> params \<Rightarrow> outcome" where
  "mlb_get_schedule_by_date http_client params =
     attr params ''date'' (\<lambda>date.
       let query_params = [(''sportId'', PInt 1), (''date'', date)]
       in http_get http_client (MLB_BASE @ ''/schedule'') (Some query_params) HEADERS)"

text \<open>Line 336: the call passes no \<^verbatim>\<open>params=\<close>; only \<^verbatim>\<open>params.game_pk\<close> is read.\<close>

definition mlb_get_boxscore :: "client \<Rightarrow> params \<Rightarrow> outcome" where
  "mlb_get_boxscore http_client params =
     attr params ''game_pk'' (\<lambda>game_pk.
       http_get http_client (MLB_BASE @ ''/game/'' @ py_str game_pk @ ''/boxscore'') None HEADERS)"

definition mlb_get_standings :: "client \<Rightarrow> params \<Rightarrow> outcome" where
  "mlb_get_standings http_client params =
     http_get http_client (MLB_BASE @ ''/standings'') (Some (model_dump False [] params)) HEADERS"

definition mlb_get_player_bio :: "client \<Rightarrow> params \<Rightarrow> outcome" where
  "mlb_get_player_bio http_client params =
     attr params ''player_id'' (\<lambda>player_id.
       http_get http_client (MLB_BASE @ ''/people/'' @ py_str player_id) None HEADERS)"

definition mlb_get_team_schedule :: "client \<Rightarrow> params \<Rightarrow> outcome" where
  "mlb_get_team_schedule http_client params =
     attr params ''team_id'' (\<lambda>team_id.
       attr params ''season'' (\<lambda>season.
         let query_params = [(''sportId'', PInt 1), (''teamId'', team_id), (''season'', season)]
         in http_get http_client (MLB_BASE @ ''/schedule'') (Some query_params) HEADERS))"

definition mlb_get_game_content :: "client \<Rightarrow> params \<Rightarrow> outcome" where
  "mlb_get_game_content http_client params =
     attr params ''game_pk'' (\<lambda>game_pk.
       http_get http_client (MLB_BASE @ ''/game/'' @ py_str game_pk @ ''/content'') None HEADERS)"

definition mlb_get_league_leaders :: "client \<Rightarrow> params \<Rightarrow> outcome" where
  "mlb_get_league_leaders http_client params =
     attr params ''category'' (\<lambda>category.
       attr params ''season'' (\<lambda>season.
         let query_params =
               [(''leaderCategories'', category), (''season'', season), (''sportId'', PInt 1)]
         in http_get http_client (MLB_BASE @ ''/stats/leaders'') (Some query_params) HEADERS))"

definition mlb_get_awards :: "client \<Rightarrow> params \<Rightarrow> outcome" where
  "mlb_get_awards http_client params =
     http_get http_client (MLB_BASE @ ''/awards'') (Some (model_dump False [] params)) HEADERS"

definition mlb_get_venues :: "client \<Rightarrow> params \<Rightarrow> outcome" where
  "mlb_get_venues http_client params =
     http_get http_client (MLB_BASE @ ''/venues'') (Some (model_dump False [] params)) HEADERS"

definition mlb_get_attendance :: "client \<Rightarrow> params \<Rightarrow> outcome" where
  "mlb_get_attendance http_client params =
     (let query_params = model_dump True [] params;
          query_params = setitem query_params ''leagueListId'' (PStr ''mlb'')
      in http_get http_client (MLB_BASE @ ''/attendance'') (Some query_params) HEADERS)"

definition mlb_get_award_winners :: "client \<Rightarrow> params \<Rightarrow> outcome" where
  "mlb_get_award_winners http_client params =
     attr params ''season'' (\<lambda>season.
       let query_params = [(''season'', season), (''sportId'', PInt 1)]
       in attr params ''award_id'' (\<lambda>award_id.
            http_get http_client (MLB_BASE @ ''/awards/'' @ py_str award_id @ ''/recipients'')
              (Some query_params) HEADERS))"

definition mlb_get_divisions :: "client \<Rightarrow> params \<Rightarrow> outcome" where
  "mlb_get_divisions http_client params =
     (let query_params = model_dump True [] params;
          query_params = setitem query_params ''sportId'' (PInt 1)
      in http_get http_client (MLB_BASE @ ''/divisions'') (Some query_params) HEADERS)"

text \<open>
  Lines 409-410: \<^verbatim>\<open>query_params = params.model_dump(exclude_none=True, exclude={'year'})\<close>
  and the URL \<^verbatim>\<open>f"{MLB_BASE}/draft/{params.year}"\<close>.
\<close>

definition mlb_get_draft :: "client \<Rightarrow> params \<Rightarrow> outcome" where
  "mlb_get_draft http_client params =
     (let query_params = model_dump True [''year''] params
      in attr params ''year'' (\<lambda>year.
           http_get http_client (MLB_BASE @ ''/draft/'' @ py_str year)
             (Some query_params) HEADERS))"

definition mlb_get_game_changes :: "client \<Rightarrow> params \<Rightarrow> outcome" where
  "mlb_get_game_changes http_client params =
     (let query_params = model_dump True [] params
      in http_get http_client (MLB_BASE @ ''/game/changes'') (Some query_params) HEADERS)"

definition mlb_get_game_context_metrics :: "client \<Rightarrow> params \<Rightarrow> outcome" where
  "mlb_get_game_context_metrics http_client params =
     (let query_params = model_dump True [''gamePk''] params
      in attr params ''gamePk'' (\<lambda>gamePk.
           http_get http_client (MLB_BASE @ ''/game/'' @ py_str gamePk @ ''/contextMetrics'')
             (Some query_params) HEADERS))"

definition mlb_get_game_linescore :: "client \<Rightarrow> params \<Rightarrow> outcome" where
  "mlb_get_game_linescore http_client params =
     (let query_params = model_dump True [''gamePk''] params
      in attr params ''gamePk'' (\<lambda>gamePk.
           http_get http_client (MLB_BASE @ ''/game/'' @ py_str gamePk @ ''/linescore'')
             (Some query_params) HEADERS))"

definition mlb_get_game_uniforms :: "client \<Rightarrow> params \<Rightarrow> outcome" where
  "mlb_get_game_uniforms http_client params =
     (let query_params = model_dump True [] params
      in http_get http_client (MLB_BASE @ ''/uniforms/game'') (Some query_params) HEADERS)"

definition mlb_get_game_pace :: "client \<Rightarrow> params \<Rightarrow> outcome" where
  "mlb_get_game_pace http_client params =
     (let query_params = model_dump True [] params;
          query_params = setitem query_params ''sportId'' (PInt 1)
      in http_get http_client (MLB_BASE @ ''/gamePace'') (Some query_params) HEADERS)"

definition mlb_get_highlow_players :: "client \<Rightarrow> params \<Rightarrow> outcome" where
  "mlb_get_highlow_players http_client params =
     (let query_params = model_dump True [] params;
          query_params = setitem query_params ''sportIds'' (PInt 1)
      in http_get http_client (MLB_BASE @ ''/highLow/player'') (Some query_params) HEADERS)"

definition mlb_get_highlow_teams :: "client \<Rightarrow> params \<Rightarrow> outcome" where
  "mlb_get_highlow_teams http_client params =
     (let query_params = model_dump True [] params;
          query_params = setitem query_params ''sportIds'' (PInt 1)
      in http_get http_client (MLB_BASE @ ''/highLow/team'') (Some query_params) HEADERS)"

definition mlb_get_all_star_ballot :: "client \<Rightarrow> params \<Rightarrow> outcome" where
  "mlb_get_all_star_ballot http_client params =
     attr params ''season'' (\<lambda>season.
       let query_params = [(''season'', season)]
       in attr params ''leagueId'' (\<lambda>leagueId.
            http_get http_client (MLB_BASE @ ''/league/'' @ py_str leagueId @ ''/allStarBallot'')
              (Some query_params) HEADERS))"

definition mlb_get_all_star_write_ins :: "client \<Rightarrow> params \<Rightarrow> outcome" where
  "mlb_get_all_star_write_ins http_client params =
     attr params ''season'' (\<lambda>season.
       let query_params = [(''season'', season)]
       in attr params ''leagueId'' (\<lambda>leagueId.
            http_get http_client (MLB_BASE @ ''/league/'' @ py_str leagueId @ ''/allStarWriteIns'')
              (Some query_params) HEADERS))"

definition mlb_get_all_star_final_vote :: "client \<Rightarrow> params \<Rightarrow> outcome" where
  "mlb_get_all_star_final_vote http_client params =
     attr params ''season'' (\<lambda>season.
       let query_params = [(''season'', season)]
       in attr params ''leagueId'' (\<lambda>leagueId.
            http_get http_client (MLB_BASE @ ''/league/'' @ py_str leagueId @ ''/allStarFinalVote'')
              (Some query_params) HEADERS))"

definition mlb_get_people_free_agents :: "client \<Rightarrow> params \<Rightarrow> outcome" where
  "mlb_get_people_free_agents http_client params =
     (let query_params = model_dump True [] params
      in http_get http_client (MLB_BASE @ ''/people/freeAgents'') (Some query_params) HEADERS)"

definition mlb_get_jobs_umpires :: "client \<Rightarrow> params \<Rightarrow> outcome" where
  "mlb_get_jobs_umpires http_client params =
     (let query_params = model_dump True [] params
      in http_get http_client (MLB_BASE @ ''/jobs/umpires'') (Some query_params) HEADERS)"

definition mlb_get_jobs_datacasters :: "client \<Rightarrow> params \<Rightarrow> outcome" where
  "mlb_get_jobs_datacasters http_client params =
     (let query_params = model_dump True [] params
      in http_get http_client (MLB_BASE @ ''/jobs/datacasters'') (Some query_params) HEADERS)"

definition mlb_get_jobs_official_scorers :: "client \<Rightarrow> params \<Rightarrow> outcome" where
  "mlb_get_jobs_official_scorers http_client params =
     (let query_params = model_dump True [] params
      in http_get http_client (MLB_BASE @ ''/jobs/officialScorers'') (Some query_params) HEADERS)"

definition mlb_get_schedule_tied_games :: "client \<Rightarrow> params \<Rightarrow> outcome" where
  "mlb_get_schedule_tied_games http_client params =
     (let query_params = model_dump True [] params
      in http_get http_client (MLB_BASE @ ''/schedule/games/tied'') (Some query_params) HEADERS)"

definition mlb_get_schedule_postseason :: "client \<Rightarrow> params \<Rightarrow> outcome" where
  "mlb_get_schedule_postseason http_client params =
     (let query_params = model_dump True [] params
      in http_get http_client (MLB_BASE @ ''/schedule/postseason'') (Some query_params) HEADERS)"

definition mlb_get_schedule_postseason_series :: "client \<Rightarrow> params \<Rightarrow> outcome" where
  "mlb_get_schedule_postseason_series http_client params =
     (let query_params = model_dump True [] params
      in http_get http_client (MLB_BASE @ ''/schedule/postseason/series'') (Some query_params) HEADERS)"

text \<open>
  Lines 532-534: \<^verbatim>\<open>base_path = "/seasons/all" if params.all else "/seasons"\<close>, then
  \<^verbatim>\<open>query_params = params.model_dump(exclude_none=True, exclude={'all'})\<close>.
\<close>

definition mlb_get_seasons :: "client \<Rightarrow> params \<Rightarrow> outcome" where
  "mlb_get_seasons http_client params =
     attr params ''all'' (\<lambda>all.
       let base_path = (if truthy all then ''/seasons/all'' else ''/seasons'');
           query_params = model_dump True [''all''] params
       in http_get http_client (MLB_BASE @ base_path) (Some query_params) HEADERS)"

definition mlb_get_season_by_id :: "client \<Rightarrow> params \<Rightarrow> outcome" where
  "mlb_get_season_by_id http_client params =
     (let query_params = [(''sportId'', PInt 1)]
      in attr params ''seasonId'' (\<lambda>seasonId.
           http_get http_client (MLB_BASE @ ''/seasons/'' @ py_str seasonId)
             (Some query_params) HEADERS))"

definition mlb_get_stats :: "client \<Rightarrow> params \<Rightarrow> outcome" where
  "mlb_get_stats http_client params =
     (let query_params = model_dump True [] params
      in http_get http_client (MLB_BASE @ ''/stats'') (Some query_params) HEADERS)"

definition mlb_get_team_history :: "client \<Rightarrow> params \<Rightarrow> outcome" where
  "mlb_get_team_history http_client params =
     (let query_params = model_dump True [] params
      in http_get http_client (MLB_BASE @ ''/teams/history'') (Some query_params) HEADERS)"

definition mlb_get_team_stats :: "client \<Rightarrow> params \<Rightarrow> outcome" where
  "mlb_get_team_stats http_client params =
     (let query_params = model_dump True [] params;
          query_params = setitem query_params ''sportIds'' (PInt 1)
      in http_get http_client (MLB_BASE @ ''/teams/stats'') (Some query_params) HEADERS)"

definition mlb_get_team_affiliates :: "client \<Rightarrow> params \<Rightarrow> outcome" where
  "mlb_get_team_affiliates http_client params =
     (let query_params = model_dump True [] params;
          query_params = setitem query_params ''sportId'' (PInt 1)
      in http_get http_client (MLB_BASE @ ''/teams/affiliates'') (Some query_params) HEADERS)"

definition mlb_get_team_alumni :: "client \<Rightarrow> params \<Rightarrow> outcome" where
  "mlb_get_team_alumni http_client params =
     (let query_params = model_dump True [''teamId''] params
      in attr params ''teamId'' (\<lambda>teamId.
           http_get http_client (MLB_BASE @ ''/teams/'' @ py_str teamId @ ''/alumni'')
             (Some query_params) HEADERS))"

definition mlb_get_team_coaches :: "client \<Rightarrow> params \<Rightarrow> outcome" where
  "mlb_get_team_coaches http_client params =
     (let query_params = model_dump True [''teamId''] params
      in attr params ''teamId'' (\<lambda>teamId.
           http_get http_client (MLB_BASE @ ''/teams/'' @ py_str teamId @ ''/coaches'')
             (Some query_params) HEADERS))"

definition mlb_get_team_personnel :: "client \<Rightarrow> params \<Rightarrow> outcome" where
  "mlb_get_team_personnel http_client params =
     (let query_params = model_dump True [''teamId''] params
      in attr params ''teamId'' (\<lambda>teamId.
           http_get http_client (MLB_BASE @ ''/teams/'' @ py_str teamId @ ''/personnel'')
             (Some query_params) HEADERS))"

definition mlb_get_team_leaders :: "client \<Rightarrow> params \<Rightarrow> outcome" where
  "mlb_get_team_leaders http_client params =
     (let query_params = model_dump True [''teamId''] params
      in attr params ''teamId'' (\<lambda>teamId.
           http_get http_client (MLB_BASE @ ''/teams/'' @ py_str teamId @ ''/leaders'')
             (Some query_params) HEADERS))"

definition mlb_get_team_stats_by_id :: "client \<Rightarrow> params \<Rightarrow> outcome" where
  "mlb_get_team_stats_by_id http_client params =
     (let query_params = model_dump True [''teamId''] params;
          query_params = setitem query_params ''sportIds'' (PInt 1)
      in attr params ''teamId'' (\<lambda>teamId.
           http_get http_client (MLB_BASE @ ''/teams/'' @ py_str teamId @ ''/stats'')
             (Some query_params) HEADERS))"

definition mlb_get_team_uniforms :: "client \<Rightarrow> params \<Rightarrow> outcome" where
  "mlb_get_team_uniforms http_client params =
     (let query_params = model_dump True [] params
      in http_get http_client (MLB_BASE @ ''/uniforms/team'') (Some query_params) HEADERS)"

definition mlb_get_transactions :: "client \<Rightarrow> params \<Rightarrow> outcome" where
  "mlb_get_transactions http_client params =
     (let query_params = model_dump True [] params;
          query_params = setitem query_params ''sportId'' (PInt 1)
      in http_get http_client (MLB_BASE @ ''/transactions'') (Some query_params) HEADERS)"

section \<open>Validation, registry and dispatch\<close>

text \<open>
  The registry is what the decorator \<^verbatim>\<open>@mcp.tool\<close> builds: each coroutine under its
  own name, with the class its \<^verbatim>\<open>params\<close> argument is annotated with.
\<close>

definition tools :: "(string \<times> schema \<times> (client \<Rightarrow> params \<Rightarrow> outcome)) list" where
  "tools =
     [(''mlb_get_all_teams'', TeamsForYearInput, mlb_get_all_teams),
      (''mlb_get_team_roster'', TeamRosterInput, mlb_get_team_roster),
      (''mlb_get_player_stats'', PlayerStatsInput, mlb_get_player_stats),
      (''mlb_get_schedule_by_date'', ScheduleByDateInput, mlb_get_schedule_by_date),
      (''mlb_get_boxscore'', BoxscoreInput, mlb_get_boxscore),
      (''mlb_get_standings'', StandingsInput, mlb_get_standings),
      (''mlb_get_player_bio'', PlayerBioInput, mlb_get_player_bio),
      (''mlb_get_team_schedule'', TeamScheduleInput, mlb_get_team_schedule),
      (''mlb_get_game_content'', GameContentInput, mlb_get_game_content),
      (''mlb_get_league_leaders'', LeagueLeadersInput, mlb_get_league_leaders),
      (''mlb_get_awards'', AwardsInput, mlb_get_awards),
      (''mlb_get_venues'', VenuesInput, mlb_get_venues),
      (''mlb_get_attendance'', AttendanceInput, mlb_get_attendance),
      (''mlb_get_award_winners'', AwardWinnersInput, mlb_get_award_winners),
      (''mlb_get_divisions'', DivisionsInput, mlb_get_divisions),
      (''mlb_get_draft'', DraftInput, mlb_get_draft),
      (''mlb_get_game_changes'', GameChangesInput, mlb_get_game_changes),
      (''mlb_get_game_context_metrics'', GameContextMetricsInput, mlb_get_game_context_metrics),
      (''mlb_get_game_linescore'', GameLinescoreInput, mlb_get_game_linescore),
      (''mlb_get_game_uniforms'', GameUniformsInput, mlb_get_game_uniforms),
      (''mlb_get_game_pace'', GamePaceInput, mlb_get_game_pace),
      (''mlb_get_highlow_players'', HighLowPlayerInput, mlb_get_highlow_players),
      (''mlb_get_highlow_teams'', HighLowTeamInput, mlb_get_highlow_teams),
      (''mlb_get_all_star_ballot'', AllStarBallotInput, mlb_get_all_star_ballot),
      (''mlb_get_all_star_write_ins'', AllStarWriteInsInput, mlb_get_all_star_write_ins),
      (''mlb_get_all_star_final_vote'', AllStarFinalVoteInput, mlb_get_all_star_final_vote),
      (''mlb_get_people_free_agents'', PeopleFreeAgentsInput, mlb_get_people_free_agents),
      (''mlb_get_jobs_umpires'', JobsUmpiresInput, mlb_get_jobs_umpires),
      (''mlb_get_jobs_datacasters'', JobsDatacastersInput, mlb_get_jobs_datacasters),
      (''mlb_get_jobs_official_scorers'', JobsOfficialScorersInput, mlb_get_jobs_official_scorers),
      (''mlb_get_schedule_tied_games'', ScheduleTiedGamesInput, mlb_get_schedule_tied_games),
      (''mlb_get_schedule_postseason'', SchedulePostseasonInput, mlb_get_schedule_postseason),
      (''mlb_get_schedule_postseason_series'', SchedulePostseasonInput, mlb_get_schedule_postseason_series),
      (''mlb_get_seasons'', SeasonsInput, mlb_get_seasons),
      (''mlb_get_season_by_id'', SeasonByIdInput, mlb_get_season_by_id),
      (''mlb_get_stats'', MLBStatsInput, mlb_get_stats),
      (''mlb_get_team_history'', TeamHistoryInput, mlb_get_team_history),
      (''mlb_get_team_stats'', TeamStatsInput, mlb_get_team_stats),
      (''mlb_get_team_affiliates'', TeamAffiliatesInput, mlb_get_team_affiliates),
      (''mlb_get_team_alumni'', TeamAlumniInput, mlb_get_team_alumni),
      (''mlb_get_team_coaches'', TeamCoachesInput, mlb_get_team_coaches),
      (''mlb_get_team_personnel'', TeamCoachesInput, mlb_get_team_personnel),
      (''mlb_get_team_leaders'', TeamLeadersInput, mlb_get_team_leaders),
      (''mlb_get_team_stats_by_id'', TeamStatsByIdInput, mlb_get_team_stats_by_id),
      (''mlb_get_team_uniforms'', TeamUniformsInput, mlb_get_team_uniforms),
      (''mlb_get_transactions'', TransactionsInput, mlb_get_transactions)]"

text \<open>
  Modelled from the spec: the coercion of a present, non-null value to the declared type
  (section 4.2, step 2). It is done by the validation library, which is not part of the
  repository. A value of the declared type is kept; a string of decimal digits, with an
  optional minus sign, is accepted for an integer field ("non-numeric string supplied for
  an integer field" is the spec's example of a mismatch); anything else is a mismatch.
\<close>

definition is_digit :: "char \<Rightarrow> bool" where
  "is_digit c = (48 \<le> (of_char c :: nat) \<and> (of_char c :: nat) \<le> 57)"

definition nat_of_digits :: "string \<Rightarrow> nat" where
  "nat_of_digits s = foldl (\<lambda>a c. 10 * a + (of_char c - 48)) 0 s"

fun int_of_str :: "string \<Rightarrow> int option" where
  "int_of_str [] = None"
| "int_of_str (c # cs) =
     (if c = CHR ''-'' then
        (if cs \<noteq> [] \<and> list_all is_digit cs then Some (- int (nat_of_digits cs)) else None)
      else if list_all is_digit (c # cs) then Some (int (nat_of_digits (c # cs)))
      else None)"

fun coerce :: "ftype \<Rightarrow> pyval \<Rightarrow> pyval option" where
  "coerce TInt (PInt i) = Some (PInt i)"
| "coerce TInt (PStr s) = map_option PInt (int_of_str s)"
| "coerce TStr (PStr s) = Some (PStr s)"
| "coerce TBool (PBool b) = Some (PBool b)"
| "coerce _ _ = None"

text \<open>
  Modelled from the spec: validation of one field (section 4.2, step 2): "if required and
  missing/null: fail with ValidationError naming the field; if present, coerce to the
  declared semantic type, failing with ValidationError on type mismatch; if optional and
  absent, substitute the declared default". An explicit null is kept for a nullable field.
\<close>

fun validate_field :: "payload \<Rightarrow> field \<Rightarrow> error_kind + pyval" where
  "validate_field raw (Field n nl t d) =
     (case map_of raw n of
        None \<Rightarrow> (case d of None \<Rightarrow> Inl Missing | Some dv \<Rightarrow> Inr dv)
      | Some PNone \<Rightarrow> (if nl then Inr PNone else Inl Missing)
      | Some v \<Rightarrow> (case coerce t v of None \<Rightarrow> Inl WrongType | Some w \<Rightarrow> Inr w))"

text \<open>
  Modelled from the spec: validation of a payload against a class. Every field is checked;
  the failures are collected with the names of their fields, and the object is built only
  when there is none.
\<close>

fun validate_fields :: "schema \<Rightarrow> payload \<Rightarrow> (string \<times> error_kind) list \<times> params" where
  "validate_fields [] raw = ([], [])"
| "validate_fields (f # fs) raw =
     (case validate_field raw f of
        Inl k \<Rightarrow> ((fname f, k) # fst (validate_fields fs raw), snd (validate_fields fs raw))
      | Inr v \<Rightarrow> (fst (validate_fields fs raw), (fname f, v) # snd (validate_fields fs raw)))"

definition validate :: "schema \<Rightarrow> payload \<Rightarrow> error + params" where
  "validate sch raw =
     (case fst (validate_fields sch raw) of
        [] \<Rightarrow> Inr (snd (validate_fields sch raw))
      | e # es \<Rightarrow> Inl (ValidationError (e # es)))"

text \<open>
  Modelled from the spec: the request dispatcher (section 4.2), which in the repository is
  the server runtime behind \<^verbatim>\<open>@mcp.tool\<close>: look the tool up, validate the payload,
  and only then run the tool body. A failure of the first two steps makes no request. The
  exception of a tool body is handed on as it is.
\<close>

definition dispatch :: "client \<Rightarrow> string \<Rightarrow> payload \<Rightarrow> outcome" where
  "dispatch http_client tool_name raw =
     (case map_of tools tool_name of
        None \<Rightarrow> ([], Inl (UnknownTool tool_name))
      | Some (sch, body) \<Rightarrow>
          (case validate sch raw of
             Inl e \<Rightarrow> ([], Inl e)
           | Inr params \<Rightarrow> body http_client params))"

subsection \<open>Properties of a tool body\<close>

text \<open>
  Three properties that are proved of every registered tool body and from which the
  claims about all tools follow. \<open>tool_shape\<close>: a call of the body either raises before
  it makes a request, or is one GET of a path under the base URL with the fixed headers.
  \<open>body_runs\<close>: on a validated object the body makes a request. \<open>omits_absent\<close>: a field
  whose default is None and which the payload omits is no key of the query parameters.
\<close>

definition tool_shape :: "(client \<Rightarrow> params \<Rightarrow> outcome) \<Rightarrow> bool" where
  "tool_shape body = (\<forall>c p. (\<exists>e. body c p = ([], Inl e)) \<or>
     (\<exists>path q. body c p = http_get c (MLB_BASE @ ''/'' @ path) q HEADERS))"

definition body_runs :: "schema \<Rightarrow> (client \<Rightarrow> params \<Rightarrow> outcome) \<Rightarrow> bool" where
  "body_runs sch body = (\<forall>c raw p. validate sch raw = Inr p \<longrightarrow> fst (body c p) \<noteq> [])"

definition omits_absent :: "schema \<Rightarrow> (client \<Rightarrow> params \<Rightarrow> outcome) \<Rightarrow> bool" where
  "omits_absent sch body =
     (\<forall>c raw p f nl t r q. validate sch raw = Inr p \<longrightarrow>
        Field f nl t (Some PNone) \<in> set sch \<longrightarrow> map_of raw f = None \<longrightarrow>
        r \<in> set (fst (body c p)) \<longrightarrow> req_params r = Some q \<longrightarrow> f \<notin> fst ` set q)"

section \<open>Facts about the string operations, the HTTP call and validation\<close>

lemma char_of_80: "char_of (80::nat) = CHR ''P''"
  by code_simp

lemma shift_80: "97 \<le> (n::nat) \<Longrightarrow> n \<le> 122 \<Longrightarrow> (n - 32) mod 256 = 80 \<Longrightarrow> n = 112"
proof -
  assume a: "97 \<le> n" "n \<le> 122" and m: "(n - 32) mod 256 = 80"
  from a have "n - 32 < 256" by arith
  then have "(n - 32) mod 256 = n - 32" by (rule mod_less)
  with m a show "n = 112" by arith
qed

lemma upper_char_P: "upper_char c = CHR ''P'' \<longleftrightarrow> c = CHR ''P'' \<or> c = CHR ''p''"
proof (cases "97 \<le> (of_char c :: nat) \<and> (of_char c :: nat) \<le> 122")
  case True
  have "char_of ((of_char c :: nat) - 32) = CHR ''P'' \<longleftrightarrow> c = CHR ''p''"
  proof
    assume "char_of ((of_char c :: nat) - 32) = CHR ''P''"
    then have "(of_char (char_of ((of_char c :: nat) - 32)) :: nat) = of_char (CHR ''P'')"
      by simp
    then have "((of_char c :: nat) - 32) mod 256 = 80" by simp
    with True have "(of_char c :: nat) = 112" by (intro shift_80) blast+
    then have "(of_char c :: nat) = of_char (CHR ''p'')" by simp
    then show "c = CHR ''p''" by (simp only: of_char_eq_iff)
  next
    assume "c = CHR ''p''"
    then show "char_of ((of_char c :: nat) - 32) = CHR ''P''" by (simp add: char_of_80)
  qed
  moreover from True have "c \<noteq> CHR ''P''" by auto
  ultimately show ?thesis using True by (simp add: upper_char_def Let_def)
next
  case False
  then have "c \<noteq> CHR ''p''" by auto
  with False show ?thesis by (auto simp add: upper_char_def Let_def)
qed

lemma str_upper_P: "str_upper s = ''P'' \<longleftrightarrow> s = ''P'' \<or> s = ''p''"
proof (cases s)
  case Nil
  then show ?thesis by (simp add: str_upper_def)
next
  case (Cons c cs)
  then show ?thesis by (cases cs) (auto simp add: str_upper_def upper_char_P)
qed

lemma http_get_fst:
  "fst (http_get c u q h) =
     [\<lparr>req_verb = GET, req_url = u, req_params = q, req_headers = h, req_content = None\<rparr>]"
  by (simp add: http_get_def Let_def split: option.split)

lemma http_get_ok:
  assumes "c \<lparr>req_verb = GET, req_url = u, req_params = q, req_headers = h, req_content = None\<rparr>
             = Some res"
    and "200 \<le> status_code res" and "status_code res \<le> 299" and "res_json res = Some j"
  shows "snd (http_get c u q h) = Inr j"
  using assms by (simp add: http_get_def Let_def raise_for_status_def json_of_def)

lemma http_get_status_error:
  assumes "c \<lparr>req_verb = GET, req_url = u, req_params = q, req_headers = h, req_content = None\<rparr>
             = Some res"
    and "status_code res < 200 \<or> 299 < status_code res"
  shows "snd (http_get c u q h) = Inl (HTTPStatusError res)"
  using assms by (auto simp add: http_get_def Let_def raise_for_status_def)

lemma validate_fields_ok:
  "fst (validate_fields sch raw) = [] \<Longrightarrow>
     snd (validate_fields sch raw) = map (\<lambda>f. (fname f, projr (validate_field raw f))) sch \<and>
     list_all (\<lambda>f. validate_field raw f = Inr (projr (validate_field raw f))) sch"
  by (induction sch) (auto split: sum.splits)

lemma validate_InrD:
  assumes "validate sch raw = Inr p"
  shows "p = map (\<lambda>f. (fname f, projr (validate_field raw f))) sch"
    and "list_all (\<lambda>f. validate_field raw f = Inr (projr (validate_field raw f))) sch"
  using assms validate_fields_ok [of sch raw]
  by (auto simp add: validate_def split: list.splits)

lemma validate_fields_error:
  "f \<in> set sch \<Longrightarrow> validate_field raw f = Inl k \<Longrightarrow>
     (fname f, k) \<in> set (fst (validate_fields sch raw))"
  by (induction sch) (auto split: sum.splits)

lemma coerce_typed:
  "coerce TStr v = Some w \<Longrightarrow> \<exists>s. w = PStr s"
  "coerce TInt v = Some w \<Longrightarrow> \<exists>i. w = PInt i"
  "coerce TBool v = Some w \<Longrightarrow> \<exists>b. w = PBool b"
  by (cases v; auto)+

lemma validate_field_req:
  "validate_field raw (Field n False TStr None) = Inr v \<Longrightarrow> \<exists>s. v = PStr s"
  "validate_field raw (Field n False TInt None) = Inr v \<Longrightarrow> \<exists>i. v = PInt i"
  "validate_field raw (Field n False t None) = Inr v \<Longrightarrow> map_of raw n \<noteq> None"
  by (auto split: option.splits pyval.splits dest: coerce_typed)

lemma validate_field_default:
  "map_of raw n = None \<Longrightarrow> validate_field raw (Field n nl t (Some d)) = Inr d"
  by simp

lemma validate_field_missing:
  "map_of raw n = None \<Longrightarrow> validate_field raw (Field n nl t None) = Inl Missing"
  by simp

lemma validate_field_bool:
  "map_of raw n = Some (PBool b) \<Longrightarrow> validate_field raw (Field n nl TBool d) = Inr (PBool b)"
  by simp

lemma validate_field_cong:
  "map_of raw1 (fname f) = map_of raw2 (fname f) \<Longrightarrow> validate_field raw1 f = validate_field raw2 f"
  by (cases f) simp

declare validate_field.simps [simp del]

lemma lookup_all_teams:
  "map_of tools ''mlb_get_all_teams'' = Some (TeamsForYearInput, mlb_get_all_teams)"
  by (simp add: tools_def)

lemma lookup_player_stats:
  "map_of tools ''mlb_get_player_stats'' = Some (PlayerStatsInput, mlb_get_player_stats)"
  by (simp add: tools_def)

lemma lookup_boxscore:
  "map_of tools ''mlb_get_boxscore'' = Some (BoxscoreInput, mlb_get_boxscore)"
  by (simp add: tools_def)

lemma lookup_draft:
  "map_of tools ''mlb_get_draft'' = Some (DraftInput, mlb_get_draft)"
  by (simp add: tools_def)

lemma lookup_game_changes:
  "map_of tools ''mlb_get_game_changes'' = Some (GameChangesInput, mlb_get_game_changes)"
  by (simp add: tools_def)

lemma lookup_seasons:
  "map_of tools ''mlb_get_seasons'' = Some (SeasonsInput, mlb_get_seasons)"
  by (simp add: tools_def)

lemma validate_teams_for_year:
  "validate TeamsForYearInput [(''year'', PInt y)] = Inr [(''year'', PInt y)]"
  by (simp add: validate_def TeamsForYearInput_def req_def validate_field.simps)

lemma dispatch_all_teams:
  "dispatch c ''mlb_get_all_teams'' [(''year'', PInt y)] =
     http_get c (MLB_BASE @ ''/teams'') (Some [(''sportId'', PInt 1), (''season'', PInt y)]) HEADERS"
  by (simp add: dispatch_def lookup_all_teams validate_teams_for_year mlb_get_all_teams_def
      attr_def)

lemma validate_fields_all_ok:
  "list_all (\<lambda>f. validate_field raw f = Inr (projr (validate_field raw f))) sch \<Longrightarrow>
     validate_fields sch raw = ([], map (\<lambda>f. (fname f, projr (validate_field raw f))) sch)"
  by (induction sch) (auto split: sum.splits)

lemma validate_InrI:
  "list_all (\<lambda>f. validate_field raw f = Inr (projr (validate_field raw f))) sch \<Longrightarrow>
     validate sch raw = Inr (map (\<lambda>f. (fname f, projr (validate_field raw f))) sch)"
  by (simp add: validate_def validate_fields_all_ok)

lemma model_dump_excluded: "k \<in> set ex \<Longrightarrow> k \<notin> fst ` set (model_dump b ex obj)"
  by (auto simp add: model_dump_def)

lemma validate_draft_empty:
  "validate DraftInput [] =
     Inr [(''year'', PNone), (''round'', PNone), (''name'', PNone), (''school'', PNone),
          (''state'', PNone), (''country'', PNone), (''position'', PNone), (''teamId'', PNone),
          (''playerId'', PNone), (''bisPlayerId'', PNone), (''latest'', PBool False),
          (''prospects'', PBool False)]"
  by (simp add: validate_InrI DraftInput_def opt_def validate_field.simps)

lemma validate_seasons_all:
  "validate SeasonsInput [(''all'', PBool True), (''season'', PStr ''2023'')] =
     Inr [(''season'', PStr ''2023''), (''all'', PBool True), (''leagueId'', PNone),
          (''divisionId'', PNone), (''fields'', PNone)]"
  by (simp add: validate_InrI SeasonsInput_def opt_def validate_field.simps)

lemma validate_boxscore_a:
  "validate BoxscoreInput
     [(''game_pk'', PInt 5), (''year'', PInt 2023), (''team_id'', PStr ''147''),
      (''game_date'', PStr ''2023-06-01'')] =
   Inr [(''game_pk'', PInt 5), (''year'', PInt 2023), (''team_id'', PStr ''147''),
      (''game_date'', PStr ''2023-06-01'')]"
  by (simp add: validate_InrI BoxscoreInput_def req_def validate_field.simps)

lemma validate_boxscore_b:
  "validate BoxscoreInput
     [(''game_pk'', PInt 5), (''year'', PInt 1999), (''team_id'', PStr ''121''),
      (''game_date'', PStr ''1999-09-09'')] =
   Inr [(''game_pk'', PInt 5), (''year'', PInt 1999), (''team_id'', PStr ''121''),
      (''game_date'', PStr ''1999-09-09'')]"
  by (simp add: validate_InrI BoxscoreInput_def req_def validate_field.simps)

lemma validate_player_stats_p:
  "validate PlayerStatsInput
     [(''player_id'', PStr ''660271''), (''year'', PInt 2023), (''position'', PStr ''p'')] =
   Inr [(''player_id'', PStr ''660271''), (''year'', PInt 2023), (''position'', PStr ''p'')]"
  by (simp add: validate_InrI PlayerStatsInput_def req_def validate_field.simps)

lemma tool_shapeI:
  "\<exists>path. u = MLB_BASE @ ''/'' @ path \<Longrightarrow>
   (\<exists>e. http_get c u q0 HEADERS = ([], Inl e)) \<or>
     (\<exists>path q. http_get c u q0 HEADERS = http_get c (MLB_BASE @ ''/'' @ path) q HEADERS)"
  by blast

lemma tool_shape_raise:
  "(\<exists>e. (([], Inl x) :: outcome) = ([], Inl e)) \<or> Q"
  by blast

lemmas body_defs =
    mlb_get_all_teams_def mlb_get_team_roster_def mlb_get_player_stats_def 
    mlb_get_schedule_by_date_def mlb_get_boxscore_def mlb_get_standings_def 
    mlb_get_player_bio_def mlb_get_team_schedule_def mlb_get_game_content_def 
    mlb_get_league_leaders_def mlb_get_awards_def mlb_get_venues_def mlb_get_attendance_def 
    mlb_get_award_winners_def mlb_get_divisions_def mlb_get_draft_def 
    mlb_get_game_changes_def mlb_get_game_context_metrics_def mlb_get_game_linescore_def 
    mlb_get_game_uniforms_def mlb_get_game_pace_def mlb_get_highlow_players_def 
    mlb_get_highlow_teams_def mlb_get_all_star_ballot_def mlb_get_all_star_write_ins_def 
    mlb_get_all_star_final_vote_def mlb_get_people_free_agents_def mlb_get_jobs_umpires_def 
    mlb_get_jobs_datacasters_def mlb_get_jobs_official_scorers_def 
    mlb_get_schedule_tied_games_def mlb_get_schedule_postseason_def 
    mlb_get_schedule_postseason_series_def mlb_get_seasons_def mlb_get_season_by_id_def 
    mlb_get_stats_def mlb_get_team_history_def mlb_get_team_stats_def 
    mlb_get_team_affiliates_def mlb_get_team_alumni_def mlb_get_team_coaches_def 
    mlb_get_team_personnel_def mlb_get_team_leaders_def mlb_get_team_stats_by_id_def 
    mlb_get_team_uniforms_def mlb_get_transactions_def 

lemmas schema_defs =
    TeamsForYearInput_def TeamRosterInput_def PlayerStatsInput_def ScheduleByDateInput_def 
    BoxscoreInput_def StandingsInput_def PlayerBioInput_def TeamScheduleInput_def 
    GameContentInput_def LeagueLeadersInput_def AwardsInput_def VenuesInput_def 
    AttendanceInput_def AwardWinnersInput_def DivisionsInput_def DraftInput_def 
    GameChangesInput_def GameContextMetricsInput_def GameLinescoreInput_def 
    GameUniformsInput_def GamePaceInput_def HighLowPlayerInput_def HighLowTeamInput_def 
    AllStarBallotInput_def AllStarWriteInsInput_def AllStarFinalVoteInput_def 
    PeopleFreeAgentsInput_def JobsUmpiresInput_def JobsDatacastersInput_def 
    JobsOfficialScorersInput_def ScheduleTiedGamesInput_def SchedulePostseasonInput_def 
    SeasonsInput_def SeasonByIdInput_def MLBStatsInput_def TeamHistoryInput_def 
    TeamStatsInput_def TeamAffiliatesInput_def TeamAlumniInput_def TeamCoachesInput_def 
    TeamLeadersInput_def TeamStatsByIdInput_def TeamUniformsInput_def TransactionsInput_def 

lemma tool_shape_bodies:
  "tool_shape mlb_get_all_teams"
  "tool_shape mlb_get_team_roster"
  "tool_shape mlb_get_player_stats"
  "tool_shape mlb_get_schedule_by_date"
  "tool_shape mlb_get_boxscore"
  "tool_shape mlb_get_standings"
  "tool_shape mlb_get_player_bio"
  "tool_shape mlb_get_team_schedule"
  "tool_shape mlb_get_game_content"
  "tool_shape mlb_get_league_leaders"
  "tool_shape mlb_get_awards"
  "tool_shape mlb_get_venues"
  "tool_shape mlb_get_attendance"
  "tool_shape mlb_get_award_winners"
  "tool_shape mlb_get_divisions"
  "tool_shape mlb_get_draft"
  "tool_shape mlb_get_game_changes"
  "tool_shape mlb_get_game_context_metrics"
  "tool_shape mlb_get_game_linescore"
  "tool_shape mlb_get_game_uniforms"
  "tool_shape mlb_get_game_pace"
  "tool_shape mlb_get_highlow_players"
  "tool_shape mlb_get_highlow_teams"
  "tool_shape mlb_get_all_star_ballot"
  "tool_shape mlb_get_all_star_write_ins"
  "tool_shape mlb_get_all_star_final_vote"
  "tool_shape mlb_get_people_free_agents"
  "tool_shape mlb_get_jobs_umpires"
  "tool_shape mlb_get_jobs_datacasters"
  "tool_shape mlb_get_jobs_official_scorers"
  "tool_shape mlb_get_schedule_tied_games"
  "tool_shape mlb_get_schedule_postseason"
  "tool_shape mlb_get_schedule_postseason_series"
  "tool_shape mlb_get_seasons"
  "tool_shape mlb_get_season_by_id"
  "tool_shape mlb_get_stats"
  "tool_shape mlb_get_team_history"
  "tool_shape mlb_get_team_stats"
  "tool_shape mlb_get_team_affiliates"
  "tool_shape mlb_get_team_alumni"
  "tool_shape mlb_get_team_coaches"
  "tool_shape mlb_get_team_personnel"
  "tool_shape mlb_get_team_leaders"
  "tool_shape mlb_get_team_stats_by_id"
  "tool_shape mlb_get_team_uniforms"
  "tool_shape mlb_get_transactions"
  unfolding tool_shape_def body_defs attr_def upper_def Let_def
  by (auto split: option.split pyval.split intro!: tool_shapeI tool_shape_raise)

lemma tools_shape: "(n, sch, body) \<in> set tools \<Longrightarrow> tool_shape body"
  by (auto simp add: tools_def tool_shape_bodies)

lemma body_runs_player_stats: "body_runs PlayerStatsInput mlb_get_player_stats"
  unfolding body_runs_def
proof (intro allI impI)
  fix c raw p
  assume v: "validate PlayerStatsInput raw = Inr p"
  from validate_InrD(2) [OF v]
  have "\<exists>s. projr (validate_field raw (Field ''position'' False TStr None)) = PStr s"
    by (auto simp add: PlayerStatsInput_def req_def dest: validate_field_req(1))
  then show "fst (mlb_get_player_stats c p) \<noteq> []"
    using validate_InrD(1) [OF v]
    by (auto simp add: PlayerStatsInput_def req_def mlb_get_player_stats_def attr_def upper_def
        http_get_fst)
qed

lemma body_runs_bodies:
  "body_runs TeamsForYearInput mlb_get_all_teams"
  "body_runs TeamRosterInput mlb_get_team_roster"
  "body_runs ScheduleByDateInput mlb_get_schedule_by_date"
  "body_runs BoxscoreInput mlb_get_boxscore"
  "body_runs StandingsInput mlb_get_standings"
  "body_runs PlayerBioInput mlb_get_player_bio"
  "body_runs TeamScheduleInput mlb_get_team_schedule"
  "body_runs GameContentInput mlb_get_game_content"
  "body_runs LeagueLeadersInput mlb_get_league_leaders"
  "body_runs AwardsInput mlb_get_awards"
  "body_runs VenuesInput mlb_get_venues"
  "body_runs AttendanceInput mlb_get_attendance"
  "body_runs AwardWinnersInput mlb_get_award_winners"
  "body_runs DivisionsInput mlb_get_divisions"
  "body_runs DraftInput mlb_get_draft"
  "body_runs GameChangesInput mlb_get_game_changes"
  "body_runs GameContextMetricsInput mlb_get_game_context_metrics"
  "body_runs GameLinescoreInput mlb_get_game_linescore"
  "body_runs GameUniformsInput mlb_get_game_uniforms"
  "body_runs GamePaceInput mlb_get_game_pace"
  "body_runs HighLowPlayerInput mlb_get_highlow_players"
  "body_runs HighLowTeamInput mlb_get_highlow_teams"
  "body_runs AllStarBallotInput mlb_get_all_star_ballot"
  "body_runs AllStarWriteInsInput mlb_get_all_star_write_ins"
  "body_runs AllStarFinalVoteInput mlb_get_all_star_final_vote"
  "body_runs PeopleFreeAgentsInput mlb_get_people_free_agents"
  "body_runs JobsUmpiresInput mlb_get_jobs_umpires"
  "body_runs JobsDatacastersInput mlb_get_jobs_datacasters"
  "body_runs JobsOfficialScorersInput mlb_get_jobs_official_scorers"
  "body_runs ScheduleTiedGamesInput mlb_get_schedule_tied_games"
  "body_runs SchedulePostseasonInput mlb_get_schedule_postseason"
  "body_runs SchedulePostseasonInput mlb_get_schedule_postseason_series"
  "body_runs SeasonsInput mlb_get_seasons"
  "body_runs SeasonByIdInput mlb_get_season_by_id"
  "body_runs MLBStatsInput mlb_get_stats"
  "body_runs TeamHistoryInput mlb_get_team_history"
  "body_runs TeamStatsInput mlb_get_team_stats"
  "body_runs TeamAffiliatesInput mlb_get_team_affiliates"
  "body_runs TeamAlumniInput mlb_get_team_alumni"
  "body_runs TeamCoachesInput mlb_get_team_coaches"
  "body_runs TeamCoachesInput mlb_get_team_personnel"
  "body_runs TeamLeadersInput mlb_get_team_leaders"
  "body_runs TeamStatsByIdInput mlb_get_team_stats_by_id"
  "body_runs TeamUniformsInput mlb_get_team_uniforms"
  "body_runs TransactionsInput mlb_get_transactions"
  unfolding body_runs_def
  by (auto dest!: validate_InrD(1) simp add: schema_defs req_def opt_def body_defs attr_def
      http_get_fst Let_def)

lemma tools_run: "(n, sch, body) \<in> set tools \<Longrightarrow> body_runs sch body"
  by (auto simp add: tools_def body_runs_bodies body_runs_player_stats)

lemma dispatch_known:
  assumes "r \<in> set (fst (dispatch c name raw))"
  shows "\<exists>sch body p. (name, sch, body) \<in> set tools \<and> validate sch raw = Inr p \<and>
           dispatch c name raw = body c p"
  using assms
  by (auto simp add: dispatch_def split: option.splits sum.splits dest: map_of_SomeD)

lemma dispatch_request:
  assumes "r \<in> set (fst (dispatch c name raw))"
  shows "\<exists>path q. dispatch c name raw = http_get c (MLB_BASE @ ''/'' @ path) q HEADERS"
proof -
  from dispatch_known [OF assms] obtain sch body p where
    t: "(name, sch, body) \<in> set tools" and d: "dispatch c name raw = body c p"
    by blast
  from tools_shape [OF t] have
    "(\<exists>e. body c p = ([], Inl e)) \<or>
     (\<exists>path q. body c p = http_get c (MLB_BASE @ ''/'' @ path) q HEADERS)"
    by (simp add: tool_shape_def)
  with assms d show ?thesis by auto
qed

lemma dispatch_valid:
  assumes l: "map_of tools name = Some (sch, body)" and v: "validate sch raw = Inr p"
  shows "\<exists>path q. dispatch c name raw = http_get c (MLB_BASE @ ''/'' @ path) q HEADERS"
proof -
  from l have t: "(name, sch, body) \<in> set tools" by (rule map_of_SomeD)
  have d: "dispatch c name raw = body c p" using l v by (simp add: dispatch_def)
  from tools_run [OF t] v have "fst (body c p) \<noteq> []" by (simp add: body_runs_def)
  with d obtain r where "r \<in> set (fst (dispatch c name raw))"
    by (cases "fst (body c p)") auto
  then show ?thesis by (rule dispatch_request)
qed

lemma dispatch_teams_2023:
  "fst (dispatch c ''mlb_get_all_teams'' [(''year'', PInt 2023)]) =
     [\<lparr>req_verb = GET, req_url = MLB_BASE @ ''/teams'',
       req_params = Some [(''sportId'', PInt 1), (''season'', PInt 2023)],
       req_headers = HEADERS, req_content = None\<rparr>]"
  by (simp add: dispatch_all_teams http_get_fst)

lemma setitem_key_cases: "(a, b) \<in> set (setitem d k v) \<Longrightarrow> a = k \<or> (a, b) \<in> set d"
  by (induction d k v rule: setitem.induct) (auto split: if_splits)

lemma validated_absent_is_None:
  assumes v: "validate sch raw = Inr p" and d: "distinct (map fname sch)"
    and f: "Field f nl t (Some PNone) \<in> set sch" and m: "map_of raw f = None"
    and x: "(f, x) \<in> set p"
  shows "x = PNone"
proof -
  from validate_InrD(1) [OF v] x obtain g where
    g: "g \<in> set sch" "fname g = f" "x = projr (validate_field raw g)"
    by auto
  from d have "inj_on fname (set sch)" by (simp add: distinct_map)
  with g(1,2) f have "g = Field f nl t (Some PNone)"
    using inj_onD [of fname "set sch" g "Field f nl t (Some PNone)"] by simp
  with g(3) m show ?thesis by (simp add: validate_field_default)
qed

lemma omits_absentI:
  assumes d: "distinct (map fname sch)"
    and k: "\<And>f nl t. Field f nl t (Some PNone) \<in> set sch \<Longrightarrow> f \<notin> set ks"
    and b: "\<And>c p r q. r \<in> set (fst (body c p)) \<Longrightarrow> req_params r = Some q \<Longrightarrow>
              fst ` set q \<subseteq> set ks \<union> fst ` set (model_dump True [] p)"
  shows "omits_absent sch body"
  unfolding omits_absent_def
proof (intro allI impI)
  fix c raw p f nl t r q
  assume v: "validate sch raw = Inr p" and f: "Field f nl t (Some PNone) \<in> set sch"
    and m: "map_of raw f = None" and r: "r \<in> set (fst (body c p))"
    and q: "req_params r = Some q"
  show "f \<notin> fst ` set q"
  proof
    assume "f \<in> fst ` set q"
    with b [OF r q] k [OF f] have "f \<in> fst ` set (model_dump True [] p)" by auto
    then obtain x where "(f, x) \<in> set p" "x \<noteq> PNone"
      by (auto simp add: model_dump_def)
    with validated_absent_is_None [OF v d f m] show False by blast
  qed
qed

lemma omits_absent_no_optional:
  "omits_absent TeamsForYearInput mlb_get_all_teams"
  "omits_absent TeamRosterInput mlb_get_team_roster"
  "omits_absent PlayerStatsInput mlb_get_player_stats"
  "omits_absent ScheduleByDateInput mlb_get_schedule_by_date"
  "omits_absent BoxscoreInput mlb_get_boxscore"
  "omits_absent StandingsInput mlb_get_standings"
  "omits_absent PlayerBioInput mlb_get_player_bio"
  "omits_absent TeamScheduleInput mlb_get_team_schedule"
  "omits_absent GameContentInput mlb_get_game_content"
  "omits_absent LeagueLeadersInput mlb_get_league_leaders"
  "omits_absent AwardsInput mlb_get_awards"
  "omits_absent VenuesInput mlb_get_venues"
  "omits_absent AwardWinnersInput mlb_get_award_winners"
  "omits_absent AllStarBallotInput mlb_get_all_star_ballot"
  "omits_absent AllStarWriteInsInput mlb_get_all_star_write_ins"
  "omits_absent AllStarFinalVoteInput mlb_get_all_star_final_vote"
  by (simp_all add: omits_absent_def schema_defs req_def)

lemma omits_absent_attendance: "omits_absent AttendanceInput mlb_get_attendance"
  by (rule omits_absentI [where ks = "[''leagueListId'']"])
    (auto simp add: schema_defs req_def opt_def mlb_get_attendance_def attr_def http_get_fst Let_def
      model_dump_def split: option.splits dest!: setitem_key_cases)

lemma omits_absent_divisions: "omits_absent DivisionsInput mlb_get_divisions"
  by (rule omits_absentI [where ks = "[''sportId'']"])
    (auto simp add: schema_defs req_def opt_def mlb_get_divisions_def attr_def http_get_fst Let_def
      model_dump_def split: option.splits dest!: setitem_key_cases)

lemma omits_absent_draft: "omits_absent DraftInput mlb_get_draft"
  by (rule omits_absentI [where ks = "[]"])
    (auto simp add: schema_defs req_def opt_def mlb_get_draft_def attr_def http_get_fst Let_def
      model_dump_def split: option.splits dest!: setitem_key_cases)

lemma omits_absent_game_changes: "omits_absent GameChangesInput mlb_get_game_changes"
  by (rule omits_absentI [where ks = "[]"])
    (auto simp add: schema_defs req_def opt_def mlb_get_game_changes_def attr_def http_get_fst Let_def
      model_dump_def split: option.splits dest!: setitem_key_cases)

lemma omits_absent_game_context_metrics: "omits_absent GameContextMetricsInput mlb_get_game_context_metrics"
  by (rule omits_absentI [where ks = "[]"])
    (auto simp add: schema_defs req_def opt_def mlb_get_game_context_metrics_def attr_def http_get_fst Let_def
      model_dump_def split: option.splits dest!: setitem_key_cases)

lemma omits_absent_game_linescore: "omits_absent GameLinescoreInput mlb_get_game_linescore"
  by (rule omits_absentI [where ks = "[]"])
    (auto simp add: schema_defs req_def opt_def mlb_get_game_linescore_def attr_def http_get_fst Let_def
      model_dump_def split: option.splits dest!: setitem_key_cases)

lemma omits_absent_game_uniforms: "omits_absent GameUniformsInput mlb_get_game_uniforms"
  by (rule omits_absentI [where ks = "[]"])
    (auto simp add: schema_defs req_def opt_def mlb_get_game_uniforms_def attr_def http_get_fst Let_def
      model_dump_def split: option.splits dest!: setitem_key_cases)

lemma omits_absent_game_pace: "omits_absent GamePaceInput mlb_get_game_pace"
  by (rule omits_absentI [where ks = "[''sportId'']"])
    (auto simp add: schema_defs req_def opt_def mlb_get_game_pace_def attr_def http_get_fst Let_def
      model_dump_def split: option.splits dest!: setitem_key_cases)

lemma omits_absent_highlow_players: "omits_absent HighLowPlayerInput mlb_get_highlow_players"
  by (rule omits_absentI [where ks = "[''sportIds'']"])
    (auto simp add: schema_defs req_def opt_def mlb_get_highlow_players_def attr_def http_get_fst Let_def
      model_dump_def split: option.splits dest!: setitem_key_cases)

lemma omits_absent_highlow_teams: "omits_absent HighLowTeamInput mlb_get_highlow_teams"
  by (rule omits_absentI [where ks = "[''sportIds'']"])
    (auto simp add: schema_defs req_def opt_def mlb_get_highlow_teams_def attr_def http_get_fst Let_def
      model_dump_def split: option.splits dest!: setitem_key_cases)

lemma omits_absent_people_free_agents: "omits_absent PeopleFreeAgentsInput mlb_get_people_free_agents"
  by (rule omits_absentI [where ks = "[]"])
    (auto simp add: schema_defs req_def opt_def mlb_get_people_free_agents_def attr_def http_get_fst Let_def
      model_dump_def split: option.splits dest!: setitem_key_cases)

lemma omits_absent_jobs_umpires: "omits_absent JobsUmpiresInput mlb_get_jobs_umpires"
  by (rule omits_absentI [where ks = "[]"])
    (auto simp add: schema_defs req_def opt_def mlb_get_jobs_umpires_def attr_def http_get_fst Let_def
      model_dump_def split: option.splits dest!: setitem_key_cases)

lemma omits_absent_jobs_datacasters: "omits_absent JobsDatacastersInput mlb_get_jobs_datacasters"
  by (rule omits_absentI [where ks = "[]"])
    (auto simp add: schema_defs req_def opt_def mlb_get_jobs_datacasters_def attr_def http_get_fst Let_def
      model_dump_def split: option.splits dest!: setitem_key_cases)

lemma omits_absent_jobs_official_scorers: "omits_absent JobsOfficialScorersInput mlb_get_jobs_official_scorers"
  by (rule omits_absentI [where ks = "[]"])
    (auto simp add: schema_defs req_def opt_def mlb_get_jobs_official_scorers_def attr_def http_get_fst Let_def
      model_dump_def split: option.splits dest!: setitem_key_cases)

lemma omits_absent_schedule_tied_games: "omits_absent ScheduleTiedGamesInput mlb_get_schedule_tied_games"
  by (rule omits_absentI [where ks = "[]"])
    (auto simp add: schema_defs req_def opt_def mlb_get_schedule_tied_games_def attr_def http_get_fst Let_def
      model_dump_def split: option.splits dest!: setitem_key_cases)

lemma omits_absent_schedule_postseason: "omits_absent SchedulePostseasonInput mlb_get_schedule_postseason"
  by (rule omits_absentI [where ks = "[]"])
    (auto simp add: schema_defs req_def opt_def mlb_get_schedule_postseason_def attr_def http_get_fst Let_def
      model_dump_def split: option.splits dest!: setitem_key_cases)

lemma omits_absent_schedule_postseason_series: "omits_absent SchedulePostseasonInput mlb_get_schedule_postseason_series"
  by (rule omits_absentI [where ks = "[]"])
    (auto simp add: schema_defs req_def opt_def mlb_get_schedule_postseason_series_def attr_def http_get_fst Let_def
      model_dump_def split: option.splits dest!: setitem_key_cases)

lemma omits_absent_seasons: "omits_absent SeasonsInput mlb_get_seasons"
  by (rule omits_absentI [where ks = "[]"])
    (auto simp add: schema_defs req_def opt_def mlb_get_seasons_def attr_def http_get_fst Let_def
      model_dump_def split: option.splits dest!: setitem_key_cases)

lemma omits_absent_season_by_id: "omits_absent SeasonByIdInput mlb_get_season_by_id"
  by (rule omits_absentI [where ks = "[''sportId'']"])
    (auto simp add: schema_defs req_def opt_def mlb_get_season_by_id_def attr_def http_get_fst Let_def
      model_dump_def split: option.splits dest!: setitem_key_cases)

lemma omits_absent_stats: "omits_absent MLBStatsInput mlb_get_stats"
  by (rule omits_absentI [where ks = "[]"])
    (auto simp add: schema_defs req_def opt_def mlb_get_stats_def attr_def http_get_fst Let_def
      model_dump_def split: option.splits dest!: setitem_key_cases)

lemma omits_absent_team_history: "omits_absent TeamHistoryInput mlb_get_team_history"
  by (rule omits_absentI [where ks = "[]"])
    (auto simp add: schema_defs req_def opt_def mlb_get_team_history_def attr_def http_get_fst Let_def
      model_dump_def split: option.splits dest!: setitem_key_cases)

lemma omits_absent_team_stats: "omits_absent TeamStatsInput mlb_get_team_stats"
  by (rule omits_absentI [where ks = "[''sportIds'']"])
    (auto simp add: schema_defs req_def opt_def mlb_get_team_stats_def attr_def http_get_fst Let_def
      model_dump_def split: option.splits dest!: setitem_key_cases)

lemma omits_absent_team_affiliates: "omits_absent TeamAffiliatesInput mlb_get_team_affiliates"
  by (rule omits_absentI [where ks = "[''sportId'']"])
    (auto simp add: schema_defs req_def opt_def mlb_get_team_affiliates_def attr_def http_get_fst Let_def
      model_dump_def split: option.splits dest!: setitem_key_cases)

lemma omits_absent_team_alumni: "omits_absent TeamAlumniInput mlb_get_team_alumni"
  by (rule omits_absentI [where ks = "[]"])
    (auto simp add: schema_defs req_def opt_def mlb_get_team_alumni_def attr_def http_get_fst Let_def
      model_dump_def split: option.splits dest!: setitem_key_cases)

lemma omits_absent_team_coaches: "omits_absent TeamCoachesInput mlb_get_team_coaches"
  by (rule omits_absentI [where ks = "[]"])
    (auto simp add: schema_defs req_def opt_def mlb_get_team_coaches_def attr_def http_get_fst Let_def
      model_dump_def split: option.splits dest!: setitem_key_cases)

lemma omits_absent_team_personnel: "omits_absent TeamCoachesInput mlb_get_team_personnel"
  by (rule omits_absentI [where ks = "[]"])
    (auto simp add: schema_defs req_def opt_def mlb_get_team_personnel_def attr_def http_get_fst Let_def
      model_dump_def split: option.splits dest!: setitem_key_cases)

lemma omits_absent_team_leaders: "omits_absent TeamLeadersInput mlb_get_team_leaders"
  by (rule omits_absentI [where ks = "[]"])
    (auto simp add: schema_defs req_def opt_def mlb_get_team_leaders_def attr_def http_get_fst Let_def
      model_dump_def split: option.splits dest!: setitem_key_cases)

lemma omits_absent_team_stats_by_id: "omits_absent TeamStatsByIdInput mlb_get_team_stats_by_id"
  by (rule omits_absentI [where ks = "[''sportIds'']"])
    (auto simp add: schema_defs req_def opt_def mlb_get_team_stats_by_id_def attr_def http_get_fst Let_def
      model_dump_def split: option.splits dest!: setitem_key_cases)

lemma omits_absent_team_uniforms: "omits_absent TeamUniformsInput mlb_get_team_uniforms"
  by (rule omits_absentI [where ks = "[]"])
    (auto simp add: schema_defs req_def opt_def mlb_get_team_uniforms_def attr_def http_get_fst Let_def
      model_dump_def split: option.splits dest!: setitem_key_cases)

lemma omits_absent_transactions: "omits_absent TransactionsInput mlb_get_transactions"
  by (rule omits_absentI [where ks = "[''sportId'']"])
    (auto simp add: schema_defs req_def opt_def mlb_get_transactions_def attr_def http_get_fst Let_def
      model_dump_def split: option.splits dest!: setitem_key_cases)

lemma tools_omit_absent: "(n, sch, body) \<in> set tools \<Longrightarrow> omits_absent sch body"
  by (auto simp add: tools_def omits_absent_no_optional
      omits_absent_attendance omits_absent_divisions omits_absent_draft
      omits_absent_game_changes omits_absent_game_context_metrics
      omits_absent_game_linescore omits_absent_game_uniforms omits_absent_game_pace
      omits_absent_highlow_players omits_absent_highlow_teams
      omits_absent_people_free_agents omits_absent_jobs_umpires
      omits_absent_jobs_datacasters omits_absent_jobs_official_scorers
      omits_absent_schedule_tied_games omits_absent_schedule_postseason
      omits_absent_schedule_postseason_series omits_absent_seasons
      omits_absent_season_by_id omits_absent_stats omits_absent_team_history
      omits_absent_team_stats omits_absent_team_affiliates omits_absent_team_alumni
      omits_absent_team_coaches omits_absent_team_personnel omits_absent_team_leaders
      omits_absent_team_stats_by_id omits_absent_team_uniforms omits_absent_transactions)

lemma validate_game_changes_since:
  "validate GameChangesInput [(''updatedSince'', PStr ''2024-08-01T00:00:00Z'')] =
     Inr [(''updatedSince'', PStr ''2024-08-01T00:00:00Z''), (''sportId'', PInt 1),
          (''gameType'', PNone), (''season'', PNone), (''fields'', PNone)]"
  by (simp add: validate_InrI GameChangesInput_def req_def opt_def validate_field.simps)

section \<open>The claims\<close>

text \<open>
  Claim C1. Dispatching \<^verbatim>\<open>mlb_get_all_teams\<close> with the payload \<^verbatim>\<open>{year: y}\<close>
  (the claim's instance is \<open>y = 2023\<close>) hands exactly one request to the client: a GET
  of \<^verbatim>\<open>/teams\<close> under the base URL with the query \<^verbatim>\<open>{sportId: 1, season: y}\<close>;
  and when the client answers it with status 200 and a body that decodes to the JSON
  document \<open>j\<close>, the dispatch returns \<open>j\<close> itself.
\<close>

theorem all_teams_request_and_result:
  "fst (dispatch c ''mlb_get_all_teams'' [(''year'', PInt y)]) =
     [\<lparr>req_verb = GET, req_url = MLB_BASE @ ''/teams'',
       req_params = Some [(''sportId'', PInt 1), (''season'', PInt y)],
       req_headers = HEADERS, req_content = None\<rparr>] \<and>
   (c \<lparr>req_verb = GET, req_url = MLB_BASE @ ''/teams'',
       req_params = Some [(''sportId'', PInt 1), (''season'', PInt y)],
       req_headers = HEADERS, req_content = None\<rparr> = Some res \<and>
    status_code res = 200 \<and> res_json res = Some j \<longrightarrow>
    snd (dispatch c ''mlb_get_all_teams'' [(''year'', PInt y)]) = Inr j)"
  by (simp add: dispatch_all_teams http_get_fst http_get_ok)

theorem all_teams_witness:
  "dispatch (stub \<lparr>status_code = 200, res_text = ''{}'', res_json = Some (JObj [])\<rparr>)
     ''mlb_get_all_teams'' [(''year'', PInt 2023)] =
   ([\<lparr>req_verb = GET, req_url = ''https://statsapi.mlb.com/api/v1/teams'',
       req_params = Some [(''sportId'', PInt 1), (''season'', PInt 2023)],
       req_headers = [(''Accept'', ''application/json''), (''Content-Type'', ''application/json'')],
       req_content = None\<rparr>], Inr (JObj []))"
  using all_teams_request_and_result
    [of "stub \<lparr>status_code = 200, res_text = ''{}'', res_json = Some (JObj [])\<rparr>" 2023
        "\<lparr>status_code = 200, res_text = ''{}'', res_json = Some (JObj [])\<rparr>" "JObj []"]
  by (simp add: stub_def MLB_BASE_def HEADERS_def prod_eq_iff)

text \<open>
  Claim C2, as amended. For \<^verbatim>\<open>mlb_get_player_stats\<close> and any valid payload, with
  validated fields \<open>pid\<close>, \<open>y\<close> and \<open>pos\<close>, the one request is a GET of
  \<^verbatim>\<open>/people/{pid}/stats\<close> with the query \<^verbatim>\<open>{stats: "season", group: g, season: y}\<close>,
  where \<open>g\<close> is \<^verbatim>\<open>pitching\<close> exactly when \<open>pos\<close> is \<^verbatim>\<open>P\<close> or \<^verbatim>\<open>p\<close>
  (line 321 compares the upper-cased position), and \<^verbatim>\<open>hitting\<close> otherwise.
\<close>

theorem player_stats_request:
  assumes v: "validate PlayerStatsInput raw = Inr p"
  shows "\<exists>pid y pos.
           p = [(''player_id'', PStr pid), (''year'', PInt y), (''position'', PStr pos)] \<and>
           fst (dispatch c ''mlb_get_player_stats'' raw) =
             [\<lparr>req_verb = GET, req_url = MLB_BASE @ ''/people/'' @ pid @ ''/stats'',
               req_params = Some [(''stats'', PStr ''season''),
                 (''group'', PStr (if pos = ''P'' \<or> pos = ''p'' then ''pitching'' else ''hitting'')),
                 (''season'', PInt y)],
               req_headers = HEADERS, req_content = None\<rparr>]"
proof -
  from validate_InrD(2) [OF v]
  obtain pid y pos where
    "projr (validate_field raw (Field ''player_id'' False TStr None)) = PStr pid"
    "projr (validate_field raw (Field ''year'' False TInt None)) = PInt y"
    "projr (validate_field raw (Field ''position'' False TStr None)) = PStr pos"
    by (auto simp add: PlayerStatsInput_def req_def dest!: validate_field_req(1,2))
  with validate_InrD(1) [OF v]
  have p: "p = [(''player_id'', PStr pid), (''year'', PInt y), (''position'', PStr pos)]"
    by (simp add: PlayerStatsInput_def req_def)
  have "fst (dispatch c ''mlb_get_player_stats'' raw) =
             [\<lparr>req_verb = GET, req_url = MLB_BASE @ ''/people/'' @ pid @ ''/stats'',
               req_params = Some [(''stats'', PStr ''season''),
                 (''group'', PStr (if pos = ''P'' \<or> pos = ''p'' then ''pitching'' else ''hitting'')),
                 (''season'', PInt y)],
               req_headers = HEADERS, req_content = None\<rparr>]"
    using v p
    by (simp add: dispatch_def lookup_player_stats mlb_get_player_stats_def attr_def upper_def
        http_get_fst str_upper_P Let_def)
  with p show ?thesis by blast
qed

theorem player_stats_witness:
  "fst (dispatch (stub \<lparr>status_code = 200, res_text = ''{}'', res_json = Some (JObj [])\<rparr>)
        ''mlb_get_player_stats''
        [(''player_id'', PStr ''660271''), (''year'', PInt 2023), (''position'', PStr ''p'')]) =
     [\<lparr>req_verb = GET, req_url = ''https://statsapi.mlb.com/api/v1/people/660271/stats'',
       req_params = Some [(''stats'', PStr ''season''), (''group'', PStr ''pitching''),
         (''season'', PInt 2023)],
       req_headers = [(''Accept'', ''application/json''), (''Content-Type'', ''application/json'')],
       req_content = None\<rparr>]"
  using player_stats_request [OF validate_player_stats_p, of
      "stub \<lparr>status_code = 200, res_text = ''{}'', res_json = Some (JObj [])\<rparr>"]
  by (auto simp add: MLB_BASE_def HEADERS_def)

text \<open>
  Claim C2 as stated fails: the position \<^verbatim>\<open>p\<close> is not the string \<^verbatim>\<open>P\<close>, yet the
  group sent is \<^verbatim>\<open>pitching\<close>.
\<close>

theorem player_stats_group_counterexample:
  "PStr ''p'' \<noteq> PStr ''P'' \<and>
   map req_params
     (fst (dispatch (stub \<lparr>status_code = 200, res_text = ''{}'', res_json = Some (JObj [])\<rparr>)
        ''mlb_get_player_stats''
        [(''player_id'', PStr ''660271''), (''year'', PInt 2023), (''position'', PStr ''p'')])) =
   [Some [(''stats'', PStr ''season''), (''group'', PStr ''pitching''), (''season'', PInt 2023)]]"
  by (simp add: dispatch_def lookup_player_stats validate_player_stats_p
      mlb_get_player_stats_def attr_def upper_def http_get_fst str_upper_P Let_def)

text \<open>
  Claim C3, as amended. For every registered tool and every valid payload, an optional
  field whose declared default is None and which the payload omits is not a key of the
  query parameters of the request. (Optional fields declared with another default are not
  covered: their default is sent.)
\<close>

theorem omitted_none_default_field_absent:
  assumes l: "map_of tools name = Some (sch, body)"
    and v: "validate sch raw = Inr p"
    and f: "Field f nl t (Some PNone) \<in> set sch"
    and m: "map_of raw f = None"
    and r: "r \<in> set (fst (dispatch c name raw))"
    and q: "req_params r = Some q"
  shows "f \<notin> fst ` set q"
proof -
  from l have t: "(name, sch, body) \<in> set tools" by (rule map_of_SomeD)
  have d: "dispatch c name raw = body c p" using l v by (simp add: dispatch_def)
  from tools_omit_absent [OF t] v f m r q d show ?thesis
    unfolding omits_absent_def by metis
qed

theorem omitted_none_default_witness:
  "\<lparr>req_verb = GET, req_url = MLB_BASE @ ''/seasons/all'',
     req_params = Some [(''season'', PStr ''2023'')], req_headers = HEADERS,
     req_content = None\<rparr>
     \<in> set (fst (dispatch (stub \<lparr>status_code = 200, res_text = ''{}'', res_json = Some (JObj [])\<rparr>)
          ''mlb_get_seasons'' [(''all'', PBool True), (''season'', PStr ''2023'')])) \<and>
   map_of [(''all'', PBool True), (''season'', PStr ''2023'')] ''fields'' = None \<and>
   ''fields'' \<notin> fst ` set [(''season'', PStr ''2023'')]"
proof -
  let ?c = "stub \<lparr>status_code = 200, res_text = ''{}'', res_json = Some (JObj [])\<rparr>"
  let ?raw = "[(''all'', PBool True), (''season'', PStr ''2023'')]"
  let ?r = "\<lparr>req_verb = GET, req_url = MLB_BASE @ ''/seasons/all'',
     req_params = Some [(''season'', PStr ''2023'')], req_headers = HEADERS,
     req_content = None\<rparr>"
  have f: "Field ''fields'' True TStr (Some PNone) \<in> set SeasonsInput"
    by (simp add: SeasonsInput_def opt_def)
  have m: "map_of ?raw ''fields'' = None" by simp
  have r: "?r \<in> set (fst (dispatch ?c ''mlb_get_seasons'' ?raw))"
    by (simp add: dispatch_def lookup_seasons validate_seasons_all mlb_get_seasons_def attr_def
        http_get_fst model_dump_def)
  have q: "req_params ?r = Some [(''season'', PStr ''2023'')]" by simp
  from omitted_none_default_field_absent [OF lookup_seasons validate_seasons_all f m r q] r m
  show ?thesis by blast
qed

text \<open>
  Claim C3 as stated fails: \<^verbatim>\<open>latest\<close> and \<^verbatim>\<open>prospects\<close> of
  \<^verbatim>\<open>mlb_get_draft\<close> default to False, and \<^verbatim>\<open>sportId\<close> of
  \<^verbatim>\<open>mlb_get_game_changes\<close> defaults to 1; omitted from the payload, each is a key
  of the query parameters, with its default as the value.
\<close>

theorem omitted_default_field_sent_counterexample:
  "map_of ([] :: payload) ''latest'' = None \<and>
   map req_params
     (fst (dispatch (stub \<lparr>status_code = 200, res_text = ''{}'', res_json = Some (JObj [])\<rparr>)
        ''mlb_get_draft'' [])) =
     [Some [(''latest'', PBool False), (''prospects'', PBool False)]] \<and>
   map_of [(''updatedSince'', PStr ''2024-08-01T00:00:00Z'')] ''sportId'' = None \<and>
   map req_params
     (fst (dispatch (stub \<lparr>status_code = 200, res_text = ''{}'', res_json = Some (JObj [])\<rparr>)
        ''mlb_get_game_changes'' [(''updatedSince'', PStr ''2024-08-01T00:00:00Z'')])) =
     [Some [(''updatedSince'', PStr ''2024-08-01T00:00:00Z''), (''sportId'', PInt 1)]]"
  by (simp add: dispatch_def lookup_draft lookup_game_changes validate_draft_empty
      validate_game_changes_since mlb_get_draft_def mlb_get_game_changes_def attr_def
      http_get_fst model_dump_def)

text \<open>
  Claim C4. For every registered tool, a payload that omits a required field of the tool's
  input class is rejected with a validation error whose list names that field as missing,
  and the dispatch makes no request.
\<close>

theorem missing_required_field_rejected:
  assumes l: "map_of tools name = Some (sch, body)"
    and f: "Field f nl t None \<in> set sch"
    and m: "map_of raw f = None"
  shows "\<exists>errs. dispatch c name raw = ([], Inl (ValidationError errs)) \<and>
           (f, Missing) \<in> set errs"
proof -
  from m have "validate_field raw (Field f nl t None) = Inl Missing"
    by (rule validate_field_missing)
  with f have e: "(f, Missing) \<in> set (fst (validate_fields sch raw))"
    using validate_fields_error [of "Field f nl t None" sch raw Missing] by simp
  then have "validate sch raw = Inl (ValidationError (fst (validate_fields sch raw)))"
    by (cases "fst (validate_fields sch raw)") (auto simp add: validate_def)
  with l have "dispatch c name raw = ([], Inl (ValidationError (fst (validate_fields sch raw))))"
    by (simp add: dispatch_def)
  with e show ?thesis by blast
qed

theorem missing_required_field_witness:
  "dispatch (stub \<lparr>status_code = 200, res_text = ''{}'', res_json = Some (JObj [])\<rparr>)
      ''mlb_get_all_teams'' [] = ([], Inl (ValidationError [(''year'', Missing)]))"
proof -
  have f: "Field ''year'' False TInt None \<in> set TeamsForYearInput"
    by (simp add: TeamsForYearInput_def req_def)
  have m: "map_of ([] :: payload) ''year'' = None" by simp
  from missing_required_field_rejected [OF lookup_all_teams f m,
      of "stub \<lparr>status_code = 200, res_text = ''{}'', res_json = Some (JObj [])\<rparr>"]
  obtain errs where
    d: "dispatch (stub \<lparr>status_code = 200, res_text = ''{}'', res_json = Some (JObj [])\<rparr>)
      ''mlb_get_all_teams'' [] = ([], Inl (ValidationError errs))"
    by blast
  have "dispatch (stub \<lparr>status_code = 200, res_text = ''{}'', res_json = Some (JObj [])\<rparr>)
      ''mlb_get_all_teams'' [] = ([], Inl (ValidationError [(''year'', Missing)]))"
    by (simp add: dispatch_def lookup_all_teams validate_def TeamsForYearInput_def req_def
        validate_field.simps)
  with d show ?thesis by simp
qed

text \<open>
  Claim C5. For every dispatch, when the client answers the request with a status below
  200 or above 299, the dispatch returns no value: it ends in the status exception, which
  carries the response itself, hence its status and its body. The instance is a 404.
\<close>

theorem non_2xx_status_raises_with_response:
  assumes r: "r \<in> set (fst (dispatch c name raw))"
    and a: "c r = Some res"
    and s: "status_code res < 200 \<or> 299 < status_code res"
  shows "snd (dispatch c name raw) = Inl (HTTPStatusError res)"
proof -
  from dispatch_request [OF r] obtain path q where
    d: "dispatch c name raw = http_get c (MLB_BASE @ ''/'' @ path) q HEADERS"
    by blast
  with r have "r = \<lparr>req_verb = GET, req_url = MLB_BASE @ ''/'' @ path, req_params = q,
      req_headers = HEADERS, req_content = None\<rparr>"
    by (simp add: http_get_fst)
  with a s d show ?thesis by (simp add: http_get_status_error)
qed

theorem status_404_witness:
  "snd (dispatch (stub \<lparr>status_code = 404, res_text = ''{message: Not Found}'', res_json = None\<rparr>)
          ''mlb_get_all_teams'' [(''year'', PInt 2023)]) =
     Inl (HTTPStatusError \<lparr>status_code = 404, res_text = ''{message: Not Found}'', res_json = None\<rparr>)"
proof -
  let ?res = "\<lparr>status_code = 404, res_text = ''{message: Not Found}'', res_json = None\<rparr>"
  let ?r = "\<lparr>req_verb = GET, req_url = MLB_BASE @ ''/teams'',
       req_params = Some [(''sportId'', PInt 1), (''season'', PInt 2023)],
       req_headers = HEADERS, req_content = None\<rparr>"
  have m: "?r \<in> set (fst (dispatch (stub ?res) ''mlb_get_all_teams'' [(''year'', PInt 2023)]))"
    by (simp add: dispatch_teams_2023)
  have a: "stub ?res ?r = Some ?res" by (simp add: stub_def)
  have s: "status_code ?res < 200 \<or> 299 < status_code ?res" by simp
  from non_2xx_status_raises_with_response [OF m a s] show ?thesis .
qed

text \<open>
  Claim C6. For \<^verbatim>\<open>mlb_get_seasons\<close> and any valid payload, the one request goes to
  \<^verbatim>\<open>/seasons/all\<close> when \<^verbatim>\<open>all\<close> is true and to \<^verbatim>\<open>/seasons\<close> when
  \<^verbatim>\<open>all\<close> is absent or false, and the key \<^verbatim>\<open>all\<close> is never among the query
  parameters.
\<close>

theorem seasons_all_selects_path:
  assumes v: "validate SeasonsInput raw = Inr p"
  shows "\<exists>path q. fst (dispatch c ''mlb_get_seasons'' raw) =
           [\<lparr>req_verb = GET, req_url = MLB_BASE @ path, req_params = Some q,
             req_headers = HEADERS, req_content = None\<rparr>] \<and>
           ''all'' \<notin> fst ` set q \<and>
           (map_of raw ''all'' = Some (PBool True) \<longrightarrow> path = ''/seasons/all'') \<and>
           (map_of raw ''all'' = None \<or> map_of raw ''all'' = Some (PBool False)
              \<longrightarrow> path = ''/seasons'')"
proof -
  let ?a = "projr (validate_field raw (Field ''all'' True TBool (Some (PBool False))))"
  have a: "map_of p ''all'' = Some ?a"
    using validate_InrD(1) [OF v] by (simp add: SeasonsInput_def opt_def)
  have t: "map_of raw ''all'' = Some (PBool True) \<Longrightarrow> truthy ?a"
    using validate_field_bool [of raw "''all''" True True "Some (PBool False)"] by simp
  have f: "map_of raw ''all'' = None \<or> map_of raw ''all'' = Some (PBool False) \<Longrightarrow> \<not> truthy ?a"
    using validate_field_bool [of raw "''all''" False True "Some (PBool False)"]
    by (auto simp add: validate_field_default)
  have x: "''all'' \<notin> fst ` set (model_dump True [''all''] p)"
    by (rule model_dump_excluded) simp
  have d: "fst (dispatch c ''mlb_get_seasons'' raw) =
      [\<lparr>req_verb = GET,
        req_url = MLB_BASE @ (if truthy ?a then ''/seasons/all'' else ''/seasons''),
        req_params = Some (model_dump True [''all''] p),
        req_headers = HEADERS, req_content = None\<rparr>]"
    using v a by (simp add: dispatch_def lookup_seasons mlb_get_seasons_def attr_def http_get_fst)
  show ?thesis
  proof (intro exI conjI)
    show "fst (dispatch c ''mlb_get_seasons'' raw) =
      [\<lparr>req_verb = GET,
        req_url = MLB_BASE @ (if truthy ?a then ''/seasons/all'' else ''/seasons''),
        req_params = Some (model_dump True [''all''] p),
        req_headers = HEADERS, req_content = None\<rparr>]" by (rule d)
    show "''all'' \<notin> fst ` set (model_dump True [''all''] p)" by (rule x)
    show "map_of raw ''all'' = Some (PBool True) \<longrightarrow>
        (if truthy ?a then ''/seasons/all'' else ''/seasons'') = ''/seasons/all''"
      using t by simp
    show "map_of raw ''all'' = None \<or> map_of raw ''all'' = Some (PBool False) \<longrightarrow>
        (if truthy ?a then ''/seasons/all'' else ''/seasons'') = ''/seasons''"
      using f by simp
  qed
qed

theorem seasons_all_witness:
  "fst (dispatch (stub \<lparr>status_code = 200, res_text = ''{}'', res_json = Some (JObj [])\<rparr>)
      ''mlb_get_seasons'' [(''all'', PBool True), (''season'', PStr ''2023'')]) =
     [\<lparr>req_verb = GET, req_url = ''https://statsapi.mlb.com/api/v1/seasons/all'',
       req_params = Some [(''season'', PStr ''2023'')],
       req_headers = [(''Accept'', ''application/json''), (''Content-Type'', ''application/json'')],
       req_content = None\<rparr>]"
proof -
  let ?c = "stub \<lparr>status_code = 200, res_text = ''{}'', res_json = Some (JObj [])\<rparr>"
  let ?raw = "[(''all'', PBool True), (''season'', PStr ''2023'')]"
  from seasons_all_selects_path [OF validate_seasons_all, of ?c]
  obtain path q where
    d: "fst (dispatch ?c ''mlb_get_seasons'' ?raw) =
           [\<lparr>req_verb = GET, req_url = MLB_BASE @ path, req_params = Some q,
             req_headers = HEADERS, req_content = None\<rparr>]"
    and pth: "map_of ?raw ''all'' = Some (PBool True) \<longrightarrow> path = ''/seasons/all''"
    by blast
  from pth have p: "path = ''/seasons/all''" by simp
  have "fst (dispatch ?c ''mlb_get_seasons'' ?raw) =
      [\<lparr>req_verb = GET, req_url = MLB_BASE @ ''/seasons/all'',
        req_params = Some (model_dump True [''all'']
          [(''season'', PStr ''2023''), (''all'', PBool True), (''leagueId'', PNone),
           (''divisionId'', PNone), (''fields'', PNone)]),
        req_headers = HEADERS, req_content = None\<rparr>]"
    by (simp add: dispatch_def lookup_seasons validate_seasons_all mlb_get_seasons_def attr_def
        http_get_fst)
  with d p show ?thesis
    by (simp add: model_dump_def MLB_BASE_def HEADERS_def)
qed

text \<open>
  Claim C7. For every registered tool and every payload that passes the validation of its
  input class, the dispatch hands exactly one request to the client, whatever the client
  answers (so nothing is repeated on a failure): a GET, of a URL that is the base URL
  followed by a path, with parameters only in that path and in the query parameters, and
  with no request body.
\<close>

theorem valid_dispatch_makes_one_get:
  assumes "map_of tools name = Some (sch, body)" and "validate sch raw = Inr p"
  shows "\<exists>path q. fst (dispatch c name raw) =
           [\<lparr>req_verb = GET, req_url = MLB_BASE @ ''/'' @ path, req_params = q,
             req_headers = HEADERS, req_content = None\<rparr>]"
proof -
  from dispatch_valid [OF assms] obtain path q where
    "dispatch c name raw = http_get c (MLB_BASE @ ''/'' @ path) q HEADERS"
    by blast
  then have "fst (dispatch c name raw) =
           [\<lparr>req_verb = GET, req_url = MLB_BASE @ ''/'' @ path, req_params = q,
             req_headers = HEADERS, req_content = None\<rparr>]"
    by (simp add: http_get_fst)
  then show ?thesis by blast
qed

theorem valid_dispatch_witness:
  "map_of tools ''mlb_get_draft'' = Some (DraftInput, mlb_get_draft) \<and>
   length (fst (dispatch (stub \<lparr>status_code = 503, res_text = [], res_json = None\<rparr>)
      ''mlb_get_draft'' [])) = 1 \<and>
   map req_verb (fst (dispatch (stub \<lparr>status_code = 503, res_text = [], res_json = None\<rparr>)
      ''mlb_get_draft'' [])) = [GET] \<and>
   map req_content (fst (dispatch (stub \<lparr>status_code = 503, res_text = [], res_json = None\<rparr>)
      ''mlb_get_draft'' [])) = [None]"
  using valid_dispatch_makes_one_get [OF lookup_draft validate_draft_empty,
      of "stub \<lparr>status_code = 503, res_text = [], res_json = None\<rparr>"]
  by (auto simp add: lookup_draft)

text \<open>
  Claim C8. Every request that any dispatch makes, for any tool name and any payload,
  carries the same two headers: \<^verbatim>\<open>Accept: application/json\<close> and
  \<^verbatim>\<open>Content-Type: application/json\<close>.
\<close>

theorem every_request_has_fixed_headers:
  assumes "r \<in> set (fst (dispatch c name raw))"
  shows "req_headers r =
           [(''Accept'', ''application/json''), (''Content-Type'', ''application/json'')]"
proof -
  from dispatch_request [OF assms] obtain path q where
    "dispatch c name raw = http_get c (MLB_BASE @ ''/'' @ path) q HEADERS"
    by blast
  with assms show ?thesis by (simp add: http_get_fst HEADERS_def)
qed

theorem fixed_headers_witness:
  "\<lparr>req_verb = GET, req_url = MLB_BASE @ ''/teams'',
       req_params = Some [(''sportId'', PInt 1), (''season'', PInt 2023)],
       req_headers = HEADERS, req_content = None\<rparr>
     \<in> set (fst (dispatch (stub \<lparr>status_code = 200, res_text = ''{}'', res_json = Some (JObj [])\<rparr>)
          ''mlb_get_all_teams'' [(''year'', PInt 2023)])) \<and>
   HEADERS = [(''Accept'', ''application/json''), (''Content-Type'', ''application/json'')]"
proof -
  have m: "\<lparr>req_verb = GET, req_url = MLB_BASE @ ''/teams'',
       req_params = Some [(''sportId'', PInt 1), (''season'', PInt 2023)],
       req_headers = HEADERS, req_content = None\<rparr>
     \<in> set (fst (dispatch (stub \<lparr>status_code = 200, res_text = ''{}'', res_json = Some (JObj [])\<rparr>)
          ''mlb_get_all_teams'' [(''year'', PInt 2023)]))"
    by (simp add: dispatch_teams_2023)
  from every_request_has_fixed_headers [OF m] m show ?thesis by simp
qed

text \<open>
  Claim C9. For \<^verbatim>\<open>mlb_get_boxscore\<close>, two valid payloads that agree on
  \<^verbatim>\<open>game_pk\<close> lead to the same list of requests (URL, query parameters, headers and
  all), and that list has exactly one request, whatever the payloads say for
  \<^verbatim>\<open>year\<close>, \<^verbatim>\<open>team_id\<close> and \<^verbatim>\<open>game_date\<close>; a valid payload does
  have to give those three fields.
\<close>

theorem boxscore_request_depends_on_game_pk_only:
  assumes v1: "validate BoxscoreInput raw1 = Inr p1"
    and v2: "validate BoxscoreInput raw2 = Inr p2"
    and g: "map_of raw1 ''game_pk'' = map_of raw2 ''game_pk''"
  shows "fst (dispatch c ''mlb_get_boxscore'' raw1) = fst (dispatch c ''mlb_get_boxscore'' raw2) \<and>
         length (fst (dispatch c ''mlb_get_boxscore'' raw1)) = 1 \<and>
         map_of raw1 ''year'' \<noteq> None \<and> map_of raw1 ''team_id'' \<noteq> None \<and>
         map_of raw1 ''game_date'' \<noteq> None"
proof -
  let ?f = "Field ''game_pk'' False TInt None"
  have e: "validate_field raw1 ?f = validate_field raw2 ?f"
    using g by (intro validate_field_cong) simp
  have d1: "fst (dispatch c ''mlb_get_boxscore'' raw1) =
      [\<lparr>req_verb = GET,
        req_url = MLB_BASE @ ''/game/'' @ py_str (projr (validate_field raw1 ?f)) @ ''/boxscore'',
        req_params = None, req_headers = HEADERS, req_content = None\<rparr>]"
    using v1 validate_InrD(1) [OF v1]
    by (simp add: dispatch_def lookup_boxscore mlb_get_boxscore_def attr_def http_get_fst
        BoxscoreInput_def req_def)
  have d2: "fst (dispatch c ''mlb_get_boxscore'' raw2) =
      [\<lparr>req_verb = GET,
        req_url = MLB_BASE @ ''/game/'' @ py_str (projr (validate_field raw2 ?f)) @ ''/boxscore'',
        req_params = None, req_headers = HEADERS, req_content = None\<rparr>]"
    using v2 validate_InrD(1) [OF v2]
    by (simp add: dispatch_def lookup_boxscore mlb_get_boxscore_def attr_def http_get_fst
        BoxscoreInput_def req_def)
  have r: "map_of raw1 ''year'' \<noteq> None \<and> map_of raw1 ''team_id'' \<noteq> None \<and>
         map_of raw1 ''game_date'' \<noteq> None"
    using validate_InrD(2) [OF v1]
    by (auto simp add: BoxscoreInput_def req_def dest: validate_field_req(3))
  show ?thesis using d1 d2 e r by simp
qed

theorem boxscore_witness:
  "fst (dispatch (stub \<lparr>status_code = 200, res_text = ''{}'', res_json = Some (JObj [])\<rparr>)
      ''mlb_get_boxscore''
      [(''game_pk'', PInt 5), (''year'', PInt 2023), (''team_id'', PStr ''147''),
       (''game_date'', PStr ''2023-06-01'')]) =
   fst (dispatch (stub \<lparr>status_code = 200, res_text = ''{}'', res_json = Some (JObj [])\<rparr>)
      ''mlb_get_boxscore''
      [(''game_pk'', PInt 5), (''year'', PInt 1999), (''team_id'', PStr ''121''),
       (''game_date'', PStr ''1999-09-09'')]) \<and>
   length (fst (dispatch (stub \<lparr>status_code = 200, res_text = ''{}'', res_json = Some (JObj [])\<rparr>)
      ''mlb_get_boxscore''
      [(''game_pk'', PInt 5), (''year'', PInt 2023), (''team_id'', PStr ''147''),
       (''game_date'', PStr ''2023-06-01'')])) = 1"
proof -
  have "map_of [(''game_pk'', PInt 5), (''year'', PInt 2023), (''team_id'', PStr ''147''),
           (''game_date'', PStr ''2023-06-01'')] ''game_pk'' =
        map_of [(''game_pk'', PInt 5), (''year'', PInt 1999), (''team_id'', PStr ''121''),
           (''game_date'', PStr ''1999-09-09'')] ''game_pk''"
    by simp
  from boxscore_request_depends_on_game_pk_only [OF validate_boxscore_a validate_boxscore_b this]
  show ?thesis by blast
qed

text \<open>
  Claim C10. For \<^verbatim>\<open>mlb_get_draft\<close>, when a valid payload omits \<^verbatim>\<open>year\<close>,
  the field takes its default None and the URL of the one request is the base URL followed
  by the literal \<^verbatim>\<open>/draft/None\<close>: the f-string of line 410 writes the absent value
  into the path segment. The call is not rejected: the empty payload is valid.
\<close>

theorem draft_year_omitted_path_None:
  assumes v: "validate DraftInput raw = Inr p" and m: "map_of raw ''year'' = None"
  shows "map req_url (fst (dispatch c ''mlb_get_draft'' raw)) = [MLB_BASE @ ''/draft/None'']"
proof -
  have y: "projr (validate_field raw (Field ''year'' True TInt (Some PNone))) = PNone"
    using m by (simp add: validate_field_default)
  have "map_of p ''year'' = Some PNone"
    using validate_InrD(1) [OF v] y by (simp add: DraftInput_def opt_def)
  then show ?thesis
    using v by (simp add: dispatch_def lookup_draft mlb_get_draft_def attr_def http_get_fst)
qed

theorem draft_year_omitted_witness:
  "map req_url (fst (dispatch (stub \<lparr>status_code = 200, res_text = ''{}'', res_json = Some (JObj [])\<rparr>)
      ''mlb_get_draft'' [])) = [''https://statsapi.mlb.com/api/v1/draft/None'']"
  using draft_year_omitted_path_None [OF validate_draft_empty, of
      "stub \<lparr>status_code = 200, res_text = ''{}'', res_json = Some (JObj [])\<rparr>"]
  by (simp add: MLB_BASE_def)

end
